theory Spec2Isabelle
  imports Main
begin

section \<open>Python values, errors and builtins\<close>

text \<open>
  The exceptions that \<^verbatim>\<open>zerver/lib/narrow.py\<close> raises or lets escape.
  \<open>BadNarrowOperatorError\<close> and \<open>InvalidOperatorCombinationError\<close> are the two classes
  the module declares (each carries its \<^verbatim>\<open>desc\<close>); \<open>JsonableError\<close> carries its
  message; a failed \<^verbatim>\<open>assert\<close> is \<open>AssertionError\<close>, an operation applied to a
  value of the wrong Python type is \<open>TypeError\<close>, \<^verbatim>\<open>int()\<close> on a string that is
  no number is \<open>ValueError\<close>, and a channel lookup that finds nothing is
  \<open>StreamDoesNotExist\<close>. The translation hook \<^verbatim>\<open>_\<close> is
  the identity.
\<close>

datatype error =
    BadNarrowOperatorError string
  | InvalidOperatorCombinationError string
  | JsonableError string
  | AssertionError
  | TypeError
  | ValueError
  | StreamDoesNotExist

definition LARGER_THAN_MAX_MESSAGE_ID :: int where
  "LARGER_THAN_MAX_MESSAGE_ID = 10000000000000000"

text \<open>
  Strings are lists of 8-bit characters, so the model covers the Python strings whose
  code points are below 256. \<open>int_space\<close> is the white space that \<^verbatim>\<open>int()\<close>
  skips on both sides of a number; \<open>py_isspace\<close> is \<^verbatim>\<open>str.isspace\<close>, which is
  also what the regular expression class \<^verbatim>\<open>\s\<close> matches.
\<close>

definition int_space :: "char \<Rightarrow> bool" where
  "int_space c = (of_char c \<in> {9, 10, 11, 12, 13, 32, 133, 160 :: nat})"

definition py_isspace :: "char \<Rightarrow> bool" where
  "py_isspace c = (of_char c \<in> {9, 10, 11, 12, 13, 28, 29, 30, 31, 32, 133, 160 :: nat})"

definition is_decimal :: "char \<Rightarrow> bool" where
  "is_decimal c = (48 \<le> (of_char c :: nat) \<and> (of_char c :: nat) \<le> 57)"

definition digit_of :: "char \<Rightarrow> int" where
  "digit_of c = int (of_char c) - 48"

text \<open>
  The digits of a Python integer literal after its first digit: digits, with single
  underscores allowed between two digits only.
\<close>

fun py_digits :: "int \<Rightarrow> string \<Rightarrow> int option" where
  "py_digits acc [] = Some acc"
| "py_digits acc [c] = (if is_decimal c then Some (10 * acc + digit_of c) else None)"
| "py_digits acc (c # d # ds) =
     (if is_decimal c then py_digits (10 * acc + digit_of c) (d # ds)
      else if c = CHR ''_'' \<and> is_decimal d then py_digits (10 * acc + digit_of d) ds
      else None)"

text \<open>
  \<^verbatim>\<open>sys.int_info.default_max_str_digits\<close>: the interpreter converts no string of
  more digits to an integer, and no integer of more digits to a string; both raise
  \<^verbatim>\<open>ValueError\<close>. The module leaves the limit at its default.
\<close>

definition int_max_str_digits :: nat where
  "int_max_str_digits = 4300"

text \<open>
  \<^verbatim>\<open>int(s)\<close> for a string in base 10; \<open>None\<close> is \<^verbatim>\<open>ValueError\<close>. White space
  around the number is skipped, one sign may come first, and the digits follow at once.
  The digits are counted without the sign, the white space and the underscores, and a
  number of more than \<open>int_max_str_digits\<close> digits is refused, leading
  zeros included.
\<close>

definition py_int :: "string \<Rightarrow> int option" where
  "py_int s =
     (let t = dropWhile int_space s;
          negative = (t \<noteq> [] \<and> hd t = CHR ''-'');
          u = (if t \<noteq> [] \<and> (hd t = CHR ''-'' \<or> hd t = CHR ''+'') then tl t else t);
          body = rev (dropWhile int_space (rev u))
      in case body of
           [] \<Rightarrow> None
         | c # cs \<Rightarrow>
             if is_decimal c \<and> length (filter is_decimal body) \<le> int_max_str_digits
             then map_option (\<lambda>n. if negative then - n else n) (py_digits (digit_of c) cs)
             else None)"

text \<open>The number that a string of decimal digits denotes.\<close>

definition decimal_value :: "string \<Rightarrow> int" where
  "decimal_value s = foldl (\<lambda>a c. 10 * a + digit_of c) 0 s"

text \<open>Python slices \<^verbatim>\<open>xs[k:]\<close> and \<^verbatim>\<open>xs[:k]\<close>: a negative bound counts from the end.\<close>

definition py_slice_from :: "int \<Rightarrow> 'a list \<Rightarrow> 'a list" where
  "py_slice_from k xs =
     (if 0 \<le> k then drop (nat k) xs else drop (nat (int (length xs) + k)) xs)"

definition py_slice_to :: "int \<Rightarrow> 'a list \<Rightarrow> 'a list" where
  "py_slice_to k xs =
     (if 0 \<le> k then take (nat k) xs else take (nat (int (length xs) + k)) xs)"

text \<open>
  \<^verbatim>\<open>str(n)\<close> for an integer; \<open>None\<close> is the \<^verbatim>\<open>ValueError\<close> of an integer of
  more than \<open>int_max_str_digits\<close> digits.
\<close>

fun decimal_digits :: "int \<Rightarrow> string" where
  "decimal_digits n =
     (if n < 10 then [char_of (48 + n)]
      else decimal_digits (n div 10) @ [char_of (48 + n mod 10)])"

definition str_int :: "int \<Rightarrow> string option" where
  "str_int i =
     (let ds = decimal_digits (abs i)
      in if int_max_str_digits < length ds then None
         else Some (if i < 0 then CHR ''-'' # ds else ds))"

fun str_ints :: "int list \<Rightarrow> string list option" where
  "str_ints [] = Some []"
| "str_ints (i # is) =
     (case str_int i of
        None \<Rightarrow> None
      | Some s \<Rightarrow> map_option (\<lambda>ss. s # ss) (str_ints is))"

text \<open>
  The Python values a narrow operand can be after validation: a string, an integer or
  a list of integers. The same values are the literals bound into a query.
  \<open>py_str\<close> is \<^verbatim>\<open>str()\<close> on them, which raises when an integer has too many
  digits.
\<close>

datatype py_value =
    PyStr string
  | PyInt int
  | PyIntList "int list"

fun join_with :: "string \<Rightarrow> string list \<Rightarrow> string" where
  "join_with sep [] = []"
| "join_with sep [x] = x"
| "join_with sep (x # y # ys) = x @ sep @ join_with sep (y # ys)"

fun py_str :: "py_value \<Rightarrow> error + string" where
  "py_str (PyStr s) = Inr s"
| "py_str (PyInt i) = (case str_int i of None \<Rightarrow> Inl ValueError | Some s \<Rightarrow> Inr s)"
| "py_str (PyIntList xs) =
     (case str_ints xs of
        None \<Rightarrow> Inl ValueError
      | Some ss \<Rightarrow> Inr (''['' @ join_with '', '' ss @ '']''))"

text \<open>
  \<^verbatim>\<open>int(x)\<close> on an operand: a string is parsed (\<open>ValueError\<close> when it is not a
  number), an integer is itself, a list is a \<open>TypeError\<close>.
\<close>

fun py_int_of :: "py_value \<Rightarrow> error + int" where
  "py_int_of (PyStr s) = (case py_int s of None \<Rightarrow> Inl ValueError | Some i \<Rightarrow> Inr i)"
| "py_int_of (PyInt i) = Inr i"
| "py_int_of (PyIntList xs) = Inl TypeError"

text \<open>\<^verbatim>\<open>s.split(",")\<close>: the pieces between the separators, empty pieces kept.\<close>

fun split_on :: "char \<Rightarrow> string \<Rightarrow> string list" where
  "split_on sep [] = [[]]"
| "split_on sep (c # cs) =
     (if c = sep then [] # split_on sep cs
      else (case split_on sep cs of
              [] \<Rightarrow> [[c]]
            | p # ps \<Rightarrow> (c # p) # ps))"

text \<open>
  \<^verbatim>\<open>str.isdigit\<close> on a string of code points below 256: not empty, and every
  character is a decimal digit or one of the superscript digits.
\<close>

definition py_isdigit :: "string \<Rightarrow> bool" where
  "py_isdigit s =
     (s \<noteq> [] \<and> list_all (\<lambda>c. is_decimal c \<or> of_char c \<in> {178, 179, 185 :: nat}) s)"

section \<open>Queries\<close>

text \<open>
  The SQLAlchemy expressions the module builds, as syntax. \<open>Column\<close> is
  \<^verbatim>\<open>column(name)\<close> and \<open>LiteralColumn\<close> is \<^verbatim>\<open>literal_column(name)\<close>;
  \<open>Literal\<close> is a bound Python value (\<^verbatim>\<open>literal(v)\<close>, or a value compared with a
  column); \<open>NamedConstant\<close> is a constant of the models, by its name; \<open>FlagsMask\<close> is the bitwise or of the masks of the named \<^verbatim>\<open>UserMessage.flags\<close>;
  \<open>BitAnd\<close> is \<^verbatim>\<open>.op("&")\<close>; \<open>Func\<close> is a call through \<^verbatim>\<open>func\<close>;
  \<open>ScalarSubquery\<close> stands for a subquery used as one value of the row it is
  correlated with.
\<close>

datatype flag =
    Flag_read
  | Flag_starred
  | Flag_mentioned
  | Flag_stream_wildcard_mentioned
  | Flag_topic_wildcard_mentioned
  | Flag_group_mentioned
  | Flag_has_alert_word
  | Flag_is_private

datatype expr =
    Column string
  | LiteralColumn string
  | Literal py_value
  | NamedConstant string
  | FlagsMask "flag list"
  | BitAnd expr expr
  | Func string "expr list"
  | ScalarSubquery string "expr list"
  | Label expr string

text \<open>
  Conditions. \<open>SqlTrue\<close>, \<open>SqlFalse\<close>, \<open>SqlNot\<close>, \<open>SqlAnd\<close> and \<open>SqlOr\<close> are
  \<^verbatim>\<open>true()\<close>, \<open>false()\<close>, \<^verbatim>\<open>not_\<close>, \<^verbatim>\<open>and_\<close> and \<^verbatim>\<open>or_\<close>; \<open>IsTrue\<close> is
  a Boolean column used as a condition; \<open>BinOp\<close> is a custom operator
  (\<^verbatim>\<open>.op(name)\<close>); \<open>In_list\<close> is \<^verbatim>\<open>.in_(ids)\<close> over ids that may be null;
  \<open>Exists\<close> is
  \<^verbatim>\<open>select().select_from(table(t)).where(...).exists()\<close>.
\<close>

datatype clause =
    SqlTrue
  | SqlFalse
  | SqlNot clause
  | SqlAnd "clause list"
  | SqlOr "clause list"
  | IsTrue expr
  | Eq expr expr
  | Ne expr expr
  | Le expr expr
  | Ge expr expr
  | In_list expr "int option list"
  | Ilike expr string
  | BinOp expr string expr
  | Exists string "clause list"

datatype from_clause =
    Table string
  | Join from_clause string clause

datatype direction = Asc | Desc

record select =
  selected_columns :: "expr list"
  from_obj :: from_clause
  whereclause :: "clause list"
  order_by_clause :: "(expr \<times> direction) option"
  limit_clause :: "int option"

text \<open>
  What \<^verbatim>\<open>fetch_messages\<close> runs: a query, the \<^verbatim>\<open>UNION ALL\<close> of two queries, or a
  selection of all columns of such a subquery in a given order.
\<close>

datatype select_base =
    Select select
  | UnionAll select select
  | OrderedSubquery select_base expr direction

definition query_where :: "select \<Rightarrow> clause \<Rightarrow> select" where
  "query_where query cond = query\<lparr>whereclause := whereclause query @ [cond]\<rparr>"

definition add_columns :: "select \<Rightarrow> expr list \<Rightarrow> select" where
  "add_columns query cols = query\<lparr>selected_columns := selected_columns query @ cols\<rparr>"

definition order_by :: "select \<Rightarrow> expr \<Rightarrow> direction \<Rightarrow> select" where
  "order_by query col dir = query\<lparr>order_by_clause := Some (col, dir)\<rparr>"

definition limit :: "select \<Rightarrow> int \<Rightarrow> select" where
  "limit query n = query\<lparr>limit_clause := Some n\<rparr>"

text \<open>
  What a query returns is decided by the storage engine, which is outside the module.
  A store gives the rows of every \<^verbatim>\<open>FROM\<close> clause (a row is the message id, which
  is column 0 of every query of the module, with the rest of the row), the truth of
  every condition that is not a Boolean combination, and the integer a row has for an
  ordering expression. On top of that, \<open>holds\<close> evaluates the Boolean combinations,
  and a query keeps the rows that satisfy all its conditions, orders them and cuts
  them at the limit; \<^verbatim>\<open>UNION ALL\<close> appends two results. Columns do not change which
  rows are returned. SQL's null and its errors for a column that a query does not have
  are outside this model.
\<close>

record 'c database =
  from_rows :: "from_clause \<Rightarrow> (int \<times> 'c) list"
  atom_holds :: "clause \<Rightarrow> (int \<times> 'c) \<Rightarrow> bool"
  sort_value :: "expr \<Rightarrow> (int \<times> 'c) \<Rightarrow> int"

fun holds :: "'c database \<Rightarrow> (int \<times> 'c) \<Rightarrow> clause \<Rightarrow> bool" where
  "holds db r SqlTrue = True"
| "holds db r SqlFalse = False"
| "holds db r (SqlNot c) = (\<not> holds db r c)"
| "holds db r (SqlAnd cs) = list_all (holds db r) cs"
| "holds db r (SqlOr cs) = list_ex (holds db r) cs"
| "holds db r c = atom_holds db c r"

definition execute_select :: "'c database \<Rightarrow> select \<Rightarrow> (int \<times> 'c) list" where
  "execute_select db query =
     (let matching = filter (\<lambda>r. list_all (holds db r) (whereclause query))
                        (from_rows db (from_obj query));
          ordered = (case order_by_clause query of
                       None \<Rightarrow> matching
                     | Some (col, Asc) \<Rightarrow> sort_key (sort_value db col) matching
                     | Some (col, Desc) \<Rightarrow> sort_key (\<lambda>r. - sort_value db col r) matching)
      in case limit_clause query of
           None \<Rightarrow> ordered
         | Some n \<Rightarrow> take (nat n) ordered)"

fun execute :: "'c database \<Rightarrow> select_base \<Rightarrow> (int \<times> 'c) list" where
  "execute db (Select query) = execute_select db query"
| "execute db (UnionAll before_query after_query) =
     execute_select db before_query @ execute_select db after_query"
| "execute db (OrderedSubquery main_query col Asc) =
     sort_key (sort_value db col) (execute db main_query)"
| "execute db (OrderedSubquery main_query col Desc) =
     sort_key (\<lambda>r. - sort_value db col r) (execute db main_query)"

text \<open>
  The store used to run the definitions on concrete data: one table whose rows are
  given and are the rows that match the narrow. A condition that compares the column
  of the message id with a number is decided by the id of the row, every other atomic
  condition holds for every row, and every ordering is by message id.
\<close>

definition is_message_id_column :: "expr \<Rightarrow> bool" where
  "is_message_id_column col =
     (col = Column ''message_id'' \<or> col = LiteralColumn ''zerver_message.id'')"

fun message_id_holds :: "clause \<Rightarrow> (int \<times> 'c) \<Rightarrow> bool" where
  "message_id_holds (Eq col (Literal (PyInt n))) r =
     (if is_message_id_column col then fst r = n else True)"
| "message_id_holds (Le col (Literal (PyInt n))) r =
     (if is_message_id_column col then fst r \<le> n else True)"
| "message_id_holds (Ge col (Literal (PyInt n))) r =
     (if is_message_id_column col then fst r \<ge> n else True)"
| "message_id_holds c r = True"

definition message_table :: "(int \<times> 'c) list \<Rightarrow> 'c database" where
  "message_table table_rows =
     \<lparr>from_rows = (\<lambda>f. table_rows), atom_holds = message_id_holds, sort_value = (\<lambda>col. fst)\<rparr>"

section \<open>Narrow terms\<close>

text \<open>
  \<^verbatim>\<open>NarrowParameter\<close>: one filter term. A narrow is a list of terms.
\<close>

record narrow_parameter =
  operator :: string
  operand :: py_value
  negated :: bool

text \<open>
  Modelled from the spec: the lists \<^verbatim>\<open>channel_operators\<close> and
  \<^verbatim>\<open>channels_operators\<close> of \<^verbatim>\<open>zerver.lib.narrow_predicate\<close>, which is not among
  the sources. The operator table of the spec gives \<^verbatim>\<open>channel\<close> with its legacy
  alias \<^verbatim>\<open>stream\<close>, and \<^verbatim>\<open>channels\<close> with its legacy alias \<^verbatim>\<open>streams\<close>.
\<close>

definition channel_operators :: "string list" where
  "channel_operators = [''channel'', ''stream'']"

definition channels_operators :: "string list" where
  "channels_operators = [''channels'', ''streams'']"

text \<open>
  Modelled from the spec: the validators of \<^verbatim>\<open>zerver.lib.validator\<close>, which is not
  among the sources. Operators that take an id accept a string or an integer, the
  operators that take a list accept a string or a list of integers (the operand type
  \<^verbatim>\<open>str | Iterable[int]\<close> of \<^verbatim>\<open>by_dm\<close>), \<^verbatim>\<open>search\<close> requires a string that is
  not empty, every other operator a string. A failure carries the name of the
  offending field.
\<close>

definition check_string :: "string \<Rightarrow> py_value \<Rightarrow> string + py_value" where
  "check_string var_name v = (case v of PyStr s \<Rightarrow> Inr v | _ \<Rightarrow> Inl var_name)"

definition check_string_or_int :: "string \<Rightarrow> py_value \<Rightarrow> string + py_value" where
  "check_string_or_int var_name v = (case v of PyIntList xs \<Rightarrow> Inl var_name | _ \<Rightarrow> Inr v)"

definition check_string_or_int_list :: "string \<Rightarrow> py_value \<Rightarrow> string + py_value" where
  "check_string_or_int_list var_name v = (case v of PyInt i \<Rightarrow> Inl var_name | _ \<Rightarrow> Inr v)"

definition check_required_string :: "string \<Rightarrow> py_value \<Rightarrow> string + py_value" where
  "check_required_string var_name v =
     (case v of PyStr s \<Rightarrow> (if s = [] then Inl var_name else Inr v) | _ \<Rightarrow> Inl var_name)"

text \<open>
  \<^verbatim>\<open>NarrowParameter.validate_terms\<close>: the validator is chosen by the operator, and a
  failure is raised as a \<open>JsonableError\<close> with the validator's message. The operator
  is a string and \<open>negated\<close> a Boolean by their types here.
\<close>

definition operators_supporting_id :: "string list" where
  "operators_supporting_id =
     channel_operators @ [''id'', ''sender'', ''group-pm-with'', ''dm-including'', ''with'']"

definition operators_supporting_ids :: "string list" where
  "operators_supporting_ids = [''pm-with'', ''dm'']"

definition operators_non_empty_operand :: "string list" where
  "operators_non_empty_operand = [''search'']"

definition validate_terms :: "narrow_parameter \<Rightarrow> error + narrow_parameter" where
  "validate_terms self =
     (let operand_validator =
            (if operator self \<in> set operators_supporting_id then check_string_or_int
             else if operator self \<in> set operators_supporting_ids then check_string_or_int_list
             else if operator self \<in> set operators_non_empty_operand then check_required_string
             else check_string)
      in case operand_validator ''operand'' (operand self) of
           Inl message \<Rightarrow> Inl (JsonableError message)
         | Inr v \<Rightarrow> Inr (self\<lparr>operand := v\<rparr>))"

text \<open>
  Building a term inside the module, as \<^verbatim>\<open>NarrowParameter(operator=..., operand=...)\<close>
  does: the term is validated, and \<open>negated\<close> is false unless given.
\<close>

definition NarrowParameter :: "string \<Rightarrow> py_value \<Rightarrow> error + narrow_parameter" where
  "NarrowParameter op v = validate_terms \<lparr>operator = op, operand = v, negated = False\<rparr>"

definition is_spectator_compatible :: "narrow_parameter list \<Rightarrow> bool" where
  "is_spectator_compatible narrow =
     (let supported_operators =
            channel_operators @ channels_operators
            @ [''topic'', ''sender'', ''has'', ''search'', ''near'', ''id'', ''with'']
      in list_all (\<lambda>element.
            (operator element = ''is'' \<and> operand element = PyStr ''resolved'')
            \<or> operator element \<in> set supported_operators) narrow)"

definition is_web_public_narrow :: "narrow_parameter list option \<Rightarrow> bool" where
  "is_web_public_narrow narrow =
     (case narrow of
        None \<Rightarrow> False
      | Some terms \<Rightarrow>
          list_ex (\<lambda>t. operator t \<in> set channels_operators
                       \<and> operand t = PyStr ''web-public''
                       \<and> negated t = False) terms)"

section \<open>Collaborators\<close>

text \<open>
  The entities the module reads from the rest of the server, with the fields it uses.
  \<open>stream_is_public\<close> is the method \<^verbatim>\<open>Stream.is_public()\<close> and
  \<open>can_access_public_streams\<close> the method of the same name of a user. A recipient has
  one of the three kinds the module compares with; \<open>OTHER_RECIPIENT_TYPE\<close> stands for
  any other stored value.
\<close>

record realm =
  realm_id :: int
  is_zephyr_mirror_realm :: bool

record stream =
  stream_id :: int
  stream_name :: string
  stream_recipient_id :: "int option"
  stream_is_web_public :: bool
  stream_is_public :: bool

record user_profile =
  user_id :: int
  user_recipient_id :: int
  user_realm :: realm
  is_guest :: bool
  can_access_public_streams :: bool

datatype recipient_type =
    PERSONAL
  | STREAM
  | DIRECT_MESSAGE_GROUP
  | OTHER_RECIPIENT_TYPE

record recipient =
  recipient_id :: int
  recipient_type :: recipient_type
  type_id :: int

record message =
  message_recipient :: recipient
  topic_name :: string

text \<open>
  The three outcomes of \<^verbatim>\<open>recipient_for_user_profiles\<close>: a recipient, a
  \<^verbatim>\<open>JsonableError\<close> or \<^verbatim>\<open>ValidationError\<close>, or
  \<^verbatim>\<open>DirectMessageGroup.DoesNotExist\<close>.
\<close>

datatype recipient_lookup =
    RecipientFound recipient
  | RecipientInvalid
  | DirectMessageGroupDoesNotExist

text \<open>
  The functions, settings and constants that the module imports and that are not among
  the sources, as parameters: every definition below takes them as \<open>env\<close>. A lookup
  that raises its not-found exception returns \<open>None\<close>. The querysets are given by
  the rows they hold; the three regular expression and pattern helpers of Python and
  Django are parameters as well (\<open>re_search_group\<close> is \<^verbatim>\<open>re.search\<close> with
  \<^verbatim>\<open>re.IGNORECASE\<close> followed by \<^verbatim>\<open>.group(1)\<close>, and \<open>None\<close> when there is no
  match).
\<close>

record collaborators =
  USING_PGROONGA :: bool
  MAX_POSSIBLE_MESSAGE_ID :: int
  get_stream_by_narrow_operand_access_unchecked :: "py_value \<Rightarrow> realm \<Rightarrow> stream option"
  get_active_streams_name_iregex :: "realm \<Rightarrow> string \<Rightarrow> stream list"
  get_public_streams_queryset :: "realm \<Rightarrow> stream list"
  get_web_public_streams_queryset :: "realm \<Rightarrow> stream list"
  get_user_including_cross_realm :: "string \<Rightarrow> realm \<Rightarrow> user_profile option"
  get_user_by_id_in_realm_including_cross_realm :: "int \<Rightarrow> realm \<Rightarrow> user_profile option"
  get_user_profiles :: "string list \<Rightarrow> realm \<Rightarrow> user_profile list option"
  get_user_profiles_by_ids :: "int list \<Rightarrow> realm \<Rightarrow> user_profile list option"
  recipient_for_user_profiles :: "user_profile list \<Rightarrow> user_profile \<Rightarrow> recipient_lookup"
  direct_message_group_subscriptions :: "user_profile \<Rightarrow> int list"
  get_direct_message_group_user_ids :: "recipient \<Rightarrow> int list"
  get_recursive_membership_groups :: "user_profile \<Rightarrow> int list"
  exclude_stream_and_topic_mutes :: "clause list \<Rightarrow> user_profile \<Rightarrow> int option \<Rightarrow> clause list"
  topic_match_sa :: "string \<Rightarrow> clause"
  topic_column_sa :: expr
  get_resolved_topic_condition_sa :: clause
  get_followed_topic_condition_sa :: "int \<Rightarrow> clause"
  maybe_rename_general_chat_to_empty_topic :: "py_value \<Rightarrow> py_value"
  can_access_stream_history_by_name :: "user_profile \<Rightarrow> string \<Rightarrow> bool"
  can_access_stream_history_by_id :: "user_profile \<Rightarrow> int \<Rightarrow> bool"
  access_message :: "user_profile \<Rightarrow> int \<Rightarrow> message option"
  access_web_public_message :: "realm \<Rightarrow> int \<Rightarrow> message option"
  get_first_visible_message_id :: "realm \<Rightarrow> int"
  re_search_group :: "string \<Rightarrow> string \<Rightarrow> string option"
  re_findall :: "string \<Rightarrow> string \<Rightarrow> string list"
  prep_for_like_query :: "string \<Rightarrow> string"

section \<open>Mute exclusion\<close>

text \<open>
  \<^verbatim>\<open>get_channel_from_narrow_access_unchecked\<close>: the channel of the first term with a
  channel operator; the lookup raises \<open>StreamDoesNotExist\<close> when it finds nothing.
\<close>

definition get_channel_from_narrow_access_unchecked ::
  "collaborators \<Rightarrow> narrow_parameter list option \<Rightarrow> realm \<Rightarrow> error + stream option" where
  "get_channel_from_narrow_access_unchecked env narrow realm' =
     (case narrow of
        None \<Rightarrow> Inr None
      | Some terms \<Rightarrow>
          (case find (\<lambda>t. operator t \<in> set channel_operators) terms of
             None \<Rightarrow> Inr None
           | Some t \<Rightarrow>
               (case get_stream_by_narrow_operand_access_unchecked env (operand t) realm' of
                  None \<Rightarrow> Inl StreamDoesNotExist
                | Some channel \<Rightarrow> Inr (Some channel))))"

text \<open>
  \<^verbatim>\<open>exclude_muting_conditions\<close>: a channel that does not exist is passed over
  (\<^verbatim>\<open>except Stream.DoesNotExist: pass\<close>).
\<close>

definition exclude_muting_conditions ::
  "collaborators \<Rightarrow> user_profile \<Rightarrow> narrow_parameter list option \<Rightarrow> clause list" where
  "exclude_muting_conditions env user narrow =
     (let channel_id =
            (case get_channel_from_narrow_access_unchecked env narrow (user_realm user) of
               Inr (Some channel) \<Rightarrow> Some (stream_id channel)
             | _ \<Rightarrow> None)
      in exclude_stream_and_topic_mutes env [] user channel_id)"

section \<open>The condition compiler\<close>

text \<open>
  \<^verbatim>\<open>maybe_negate\<close> is either the function \<^verbatim>\<open>not_\<close> or the identity
  \<^verbatim>\<open>lambda cond: cond\<close>, and the code tests which one it is
  (\<^verbatim>\<open>maybe_negate is not_\<close>); \<open>transform\<close> applies it.
\<close>

datatype condition_transform = Sql_not | Keep_cond

fun transform :: "condition_transform \<Rightarrow> clause \<Rightarrow> clause" where
  "transform Sql_not cond = SqlNot cond"
| "transform Keep_cond cond = cond"

text \<open>
  \<^verbatim>\<open>NarrowBuilder\<close>: the fields of the object. \<open>by_method_map\<close> is constant and is
  defined after the handlers. \<open>NarrowBuilder\<close> is the constructor.
\<close>

record narrow_builder =
  user_profile :: "user_profile option"
  msg_id_column :: expr
  realm :: realm
  is_web_public_query :: bool
  is_channel_narrow :: bool
  is_dm_narrow :: bool

definition NarrowBuilder :: "user_profile option \<Rightarrow> expr \<Rightarrow> realm \<Rightarrow> bool \<Rightarrow> narrow_builder" where
  "NarrowBuilder user_profile' msg_id_column' realm' is_web_public_query' =
     \<lparr>user_profile = user_profile', msg_id_column = msg_id_column', realm = realm',
      is_web_public_query = is_web_public_query',
      is_channel_narrow = False, is_dm_narrow = False\<rparr>"

type_synonym by_method =
  "collaborators \<Rightarrow> narrow_builder \<Rightarrow> select \<Rightarrow> py_value \<Rightarrow> condition_transform
     \<Rightarrow> error + narrow_builder \<times> select"

definition check_not_both_channel_and_dm_narrow ::
  "narrow_builder \<Rightarrow> condition_transform \<Rightarrow> bool \<Rightarrow> bool \<Rightarrow> error + narrow_builder" where
  "check_not_both_channel_and_dm_narrow self maybe_negate is_dm_narrow' is_channel_narrow' =
     (if maybe_negate = Sql_not then Inr self
      else
        (let self1 = (if is_dm_narrow' then self\<lparr>is_dm_narrow := True\<rparr> else self);
             self2 = (if is_channel_narrow' then self1\<lparr>is_channel_narrow := True\<rparr> else self1)
         in if is_channel_narrow self2 \<and> is_dm_narrow self2
            then Inl (BadNarrowOperatorError
                        ''No message can be both a channel message and direct message'')
            else Inr self2))"

fun column_name :: "expr \<Rightarrow> string" where
  "column_name (Column n) = n"
| "column_name (LiteralColumn n) = n"
| "column_name (Label e n) = n"
| "column_name e = []"

definition by_has :: by_method where
  "by_has env self query operand' maybe_negate =
     (case operand' of
        PyStr s \<Rightarrow>
          if s \<notin> set [''attachment'', ''image'', ''link'', ''reaction'']
          then Inl (BadNarrowOperatorError (''unknown 'has' operand '' @ s))
          else if s = ''reaction''
          then
            (let check_col =
                   (if column_name (msg_id_column self) = ''message_id''
                    then LiteralColumn ''zerver_usermessage.message_id''
                    else LiteralColumn ''zerver_message.id'');
                 exists_cond =
                   Exists ''zerver_reaction''
                     [Eq check_col (LiteralColumn ''zerver_reaction.message_id'')]
             in Inr (self, query_where query (transform maybe_negate exists_cond)))
          else
            (let col_name = ''has_'' @ s;
                 cond = IsTrue (Column col_name)
             in Inr (self, query_where query (transform maybe_negate cond)))
      | _ \<Rightarrow> Inl TypeError)"

definition by_in :: by_method where
  "by_in env self query operand' maybe_negate =
     (if is_web_public_query self then Inl AssertionError
      else case user_profile self of
        None \<Rightarrow> Inl AssertionError
      | Some me \<Rightarrow>
          if operand' = PyStr ''home''
          then
            (let conditions = exclude_muting_conditions env me
                   (Some [\<lparr>operator = ''in'', operand = PyStr ''home'', negated = False\<rparr>])
             in if conditions \<noteq> []
                then Inr (self, query_where query (transform maybe_negate (SqlAnd conditions)))
                else Inr (self, query_where query (transform maybe_negate SqlTrue)))
          else if operand' = PyStr ''all'' then Inr (self, query)
          else (case operand' of
                  PyStr s \<Rightarrow> Inl (BadNarrowOperatorError (''unknown 'in' operand '' @ s))
                | _ \<Rightarrow> Inl TypeError))"

definition by_is :: by_method where
  "by_is env self query operand' maybe_negate =
     (if operand' = PyStr ''resolved''
      then Inr (self, query_where query
                  (transform maybe_negate (get_resolved_topic_condition_sa env)))
      else if is_web_public_query self then Inl AssertionError
      else case user_profile self of
        None \<Rightarrow> Inl AssertionError
      | Some me \<Rightarrow>
          if operand' \<in> set [PyStr ''dm'', PyStr ''private'']
          then
            (case (if maybe_negate = Sql_not
                   then check_not_both_channel_and_dm_narrow self Keep_cond False True
                   else check_not_both_channel_and_dm_narrow self maybe_negate True False) of
               Inl e \<Rightarrow> Inl e
             | Inr self' \<Rightarrow>
                 (let cond = Ne (BitAnd (Column ''flags'') (FlagsMask [Flag_is_private]))
                                (Literal (PyInt 0))
                  in Inr (self', query_where query (transform maybe_negate cond))))
          else if operand' = PyStr ''starred''
          then
            (let cond = Ne (BitAnd (Column ''flags'') (FlagsMask [Flag_starred]))
                           (Literal (PyInt 0))
             in Inr (self, query_where query (transform maybe_negate cond)))
          else if operand' = PyStr ''unread''
          then
            (let cond = Eq (BitAnd (Column ''flags'') (FlagsMask [Flag_read]))
                           (Literal (PyInt 0))
             in Inr (self, query_where query (transform maybe_negate cond)))
          else if operand' = PyStr ''mentioned''
          then
            (let mention_flags_mask =
                   FlagsMask [Flag_mentioned, Flag_stream_wildcard_mentioned,
                              Flag_topic_wildcard_mentioned, Flag_group_mentioned];
                 cond = Ne (BitAnd (Column ''flags'') mention_flags_mask) (Literal (PyInt 0))
             in Inr (self, query_where query (transform maybe_negate cond)))
          else if operand' = PyStr ''alerted''
          then
            (let cond = Ne (BitAnd (Column ''flags'') (FlagsMask [Flag_has_alert_word]))
                           (Literal (PyInt 0))
             in Inr (self, query_where query (transform maybe_negate cond)))
          else if operand' = PyStr ''followed''
          then
            (let cond = get_followed_topic_condition_sa env (user_id me)
             in Inr (self, query_where query (transform maybe_negate cond)))
          else if operand' = PyStr ''muted''
          then
            (let conditions = exclude_muting_conditions env me
                   (Some [\<lparr>operator = ''is'', operand = PyStr ''muted'', negated = False\<rparr>])
             in if conditions \<noteq> []
                then Inr (self, query_where query
                            (transform maybe_negate (SqlNot (SqlAnd conditions))))
                else Inr (self, query_where query (transform maybe_negate SqlFalse)))
          else (case operand' of
                  PyStr s \<Rightarrow> Inl (BadNarrowOperatorError (''unknown 'is' operand '' @ s))
                | _ \<Rightarrow> Inl TypeError))"

text \<open>
  \<^verbatim>\<open>_pg_re_escape\<close>: every character that is not an ASCII letter or digit is
  escaped, as \<^verbatim>\<open>\uXXXX\<close> from code point 128 on and with a backslash below.
\<close>

definition alphanum :: "char set" where
  "alphanum = set ''abcdefghijklmnopqrstuvwxyzABCDEFGHIJKLMNOPQRSTUVWXYZ0123456789''"

definition hex_digit :: "nat \<Rightarrow> char" where
  "hex_digit n = ''0123456789abcdef'' ! (n mod 16)"

definition hex4 :: "nat \<Rightarrow> string" where
  "hex4 n = [hex_digit (n div 4096), hex_digit (n div 256), hex_digit (n div 16), hex_digit n]"

definition pg_re_escape :: "string \<Rightarrow> string" where
  "pg_re_escape pattern =
     concat (map (\<lambda>c. if c \<in> alphanum then [c]
                       else if (of_char c :: nat) \<ge> 128 then [CHR 0x5C, CHR ''u''] @ hex4 (of_char c)
                       else [CHR 0x5C, c]) pattern)"

text \<open>
  The regular expressions of \<^verbatim>\<open>by_channel\<close> and \<^verbatim>\<open>by_topic\<close> for a Zephyr mirror
  realm, \<^verbatim>\<open>^(?:un)*(.+?)(?:\.d)*$\<close> and \<^verbatim>\<open>^(.*?)(?:\.d)*$\<close>, and the opening and
  closing parts of the pattern that \<^verbatim>\<open>by_channel\<close> matches channel names with.
\<close>

definition base_channel_name_regex :: string where
  "base_channel_name_regex = ''^(?:un)*(.+?)(?:'' @ [CHR 0x5C] @ ''.d)*$''"

definition base_topic_regex :: string where
  "base_topic_regex = ''^(.*?)(?:'' @ [CHR 0x5C] @ ''.d)*$''"

definition matching_channels_regex :: "string \<Rightarrow> string" where
  "matching_channels_regex base_channel_name =
     ''^(un)*'' @ pg_re_escape base_channel_name @ ''('' @ [CHR 0x5C] @ ''.d)*$''"

definition by_channel :: by_method where
  "by_channel env self query operand' maybe_negate =
     (case check_not_both_channel_and_dm_narrow self maybe_negate False True of
        Inl e \<Rightarrow> Inl e
      | Inr self' \<Rightarrow>
          (case get_stream_by_narrow_operand_access_unchecked env operand' (realm self') of
             None \<Rightarrow>
               (case py_str operand' of
                  Inl e \<Rightarrow> Inl e
                | Inr s \<Rightarrow> Inl (BadNarrowOperatorError (''unknown channel '' @ s)))
           | Some channel \<Rightarrow>
               if is_web_public_query self' \<and> \<not> stream_is_web_public channel
               then
                 (case py_str operand' of
                    Inl e \<Rightarrow> Inl e
                  | Inr s \<Rightarrow> Inl (BadNarrowOperatorError (''unknown web-public channel '' @ s)))
               else if is_zephyr_mirror_realm (realm self')
               then
                 (if stream_is_public channel then Inl AssertionError
                  else case re_search_group env base_channel_name_regex (stream_name channel) of
                    None \<Rightarrow> Inl AssertionError
                  | Some base_channel_name \<Rightarrow>
                      (let matching_channels =
                             get_active_streams_name_iregex env (realm self')
                               (matching_channels_regex base_channel_name);
                           recipient_ids = map stream_recipient_id matching_channels;
                           cond = In_list (Column ''recipient_id'') recipient_ids
                       in Inr (self', query_where query (transform maybe_negate cond))))
               else
                 (case stream_recipient_id channel of
                    None \<Rightarrow> Inl AssertionError
                  | Some recipient_id' \<Rightarrow>
                      (let cond = Eq (Column ''recipient_id'') (Literal (PyInt recipient_id'))
                       in Inr (self', query_where query (transform maybe_negate cond))))))"

definition by_channels :: by_method where
  "by_channels env self query operand' maybe_negate =
     (case check_not_both_channel_and_dm_narrow self maybe_negate False True of
        Inl e \<Rightarrow> Inl e
      | Inr self' \<Rightarrow>
          (case (if operand' = PyStr ''public''
                 then Inr (get_public_streams_queryset env (realm self'))
                 else if operand' = PyStr ''web-public''
                 then Inr (get_web_public_streams_queryset env (realm self'))
                 else (case operand' of
                         PyStr s \<Rightarrow> Inl (BadNarrowOperatorError (''unknown channels operand '' @ s))
                       | _ \<Rightarrow> Inl TypeError)) of
             Inl e \<Rightarrow> Inl e
           | Inr recipient_queryset \<Rightarrow>
               (let recipient_ids = map stream_recipient_id (sort_key stream_id recipient_queryset);
                    cond = In_list (Column ''recipient_id'') recipient_ids
                in Inr (self', query_where query (transform maybe_negate cond)))))"

definition by_topic :: by_method where
  "by_topic env self query operand' maybe_negate =
     (case check_not_both_channel_and_dm_narrow self maybe_negate False True of
        Inl e \<Rightarrow> Inl e
      | Inr self' \<Rightarrow>
          (case operand' of
             PyStr topic \<Rightarrow>
               if is_zephyr_mirror_realm (realm self')
               then
                 (case re_search_group env base_topic_regex topic of
                    None \<Rightarrow> Inl AssertionError
                  | Some base_topic \<Rightarrow>
                      (let instance = ''(instance '' @ [CHR 0x22, CHR 0x22] @ '')'';
                           cond =
                             (if base_topic \<in> set [[], ''personal'', instance]
                              then SqlOr
                                [topic_match_sa env [],
                                 topic_match_sa env ''.d'',
                                 topic_match_sa env ''.d.d'',
                                 topic_match_sa env ''.d.d.d'',
                                 topic_match_sa env ''.d.d.d.d'',
                                 topic_match_sa env ''personal'',
                                 topic_match_sa env ''personal.d'',
                                 topic_match_sa env ''personal.d.d'',
                                 topic_match_sa env ''personal.d.d.d'',
                                 topic_match_sa env ''personal.d.d.d.d'',
                                 topic_match_sa env instance,
                                 topic_match_sa env (instance @ ''.d''),
                                 topic_match_sa env (instance @ ''.d.d''),
                                 topic_match_sa env (instance @ ''.d.d.d''),
                                 topic_match_sa env (instance @ ''.d.d.d.d'')]
                              else SqlOr
                                [topic_match_sa env base_topic,
                                 topic_match_sa env (base_topic @ ''.d''),
                                 topic_match_sa env (base_topic @ ''.d.d''),
                                 topic_match_sa env (base_topic @ ''.d.d.d''),
                                 topic_match_sa env (base_topic @ ''.d.d.d.d'')])
                       in Inr (self', query_where query (transform maybe_negate cond))))
               else
                 (let cond = topic_match_sa env topic
                  in Inr (self', query_where query (transform maybe_negate cond)))
           | _ \<Rightarrow> Inl TypeError))"

definition by_sender :: by_method where
  "by_sender env self query operand' maybe_negate =
     (case (case operand' of
              PyStr email \<Rightarrow> Inr (get_user_including_cross_realm env email (realm self))
            | PyInt i \<Rightarrow> Inr (get_user_by_id_in_realm_including_cross_realm env i (realm self))
            | PyIntList xs \<Rightarrow> Inl TypeError) of
        Inl e \<Rightarrow> Inl e
      | Inr None \<Rightarrow>
        (case py_str operand' of
           Inl e \<Rightarrow> Inl e
         | Inr s \<Rightarrow> Inl (BadNarrowOperatorError (''unknown user '' @ s)))
      | Inr (Some sender) \<Rightarrow>
          (let cond = Eq (Column ''sender_id'') (Literal (PyInt (user_id sender)))
           in Inr (self, query_where query (transform maybe_negate cond))))"

definition by_near :: by_method where
  "by_near env self query operand' maybe_negate = Inr (self, query)"

text \<open>
  \<^verbatim>\<open>by_id\<close>: \<^verbatim>\<open>str(operand).isdigit()\<close> comes first, so \<^verbatim>\<open>int(operand)\<close> runs
  only on an integer that is not negative or on a string of digits; on a string with a
  superscript digit it raises \<open>ValueError\<close>.
\<close>

definition by_id :: by_method where
  "by_id env self query operand' maybe_negate =
     (case py_str operand' of
        Inl e \<Rightarrow> Inl e
      | Inr s \<Rightarrow>
          if \<not> py_isdigit s
          then Inl (BadNarrowOperatorError ''Invalid message ID'')
          else case py_int_of operand' of
            Inl e \<Rightarrow> Inl e
          | Inr i \<Rightarrow>
              if i > MAX_POSSIBLE_MESSAGE_ID env
              then Inl (BadNarrowOperatorError ''Invalid message ID'')
              else
                (let cond = Eq (msg_id_column self) (Literal operand')
                 in Inr (self, query_where query (transform maybe_negate cond))))"

definition by_dm :: by_method where
  "by_dm env self query operand' maybe_negate =
     (if is_web_public_query self then Inl AssertionError
      else case user_profile self of
        None \<Rightarrow> Inl AssertionError
      | Some me \<Rightarrow>
          (case check_not_both_channel_and_dm_narrow self maybe_negate True False of
             Inl e \<Rightarrow> Inl e
           | Inr self' \<Rightarrow>
               (case (case operand' of
                        PyStr s \<Rightarrow>
                          (let email_list = split_on (CHR '','') s
                           in Inr (get_user_profiles env email_list (realm self')))
                      | PyIntList ids \<Rightarrow> Inr (get_user_profiles_by_ids env ids (realm self'))
                      | PyInt i \<Rightarrow> Inl TypeError) of
                  Inl e \<Rightarrow> Inl e
                | Inr None \<Rightarrow>
                      (case py_str operand' of
                         Inl e \<Rightarrow> Inl e
                       | Inr s \<Rightarrow> Inl (BadNarrowOperatorError (''unknown user in '' @ s)))
                | Inr (Some user_profiles) \<Rightarrow>
                    if user_profiles = []
                    then Inr (self', query_where query (transform maybe_negate SqlFalse))
                    else
                      (case recipient_for_user_profiles env user_profiles me of
                         RecipientInvalid \<Rightarrow>
                             (case py_str operand' of
                                Inl e \<Rightarrow> Inl e
                              | Inr s \<Rightarrow> Inl (BadNarrowOperatorError (''unknown user in '' @ s)))
                       | DirectMessageGroupDoesNotExist \<Rightarrow>
                           Inr (self', query_where query (transform maybe_negate SqlFalse))
                       | RecipientFound recipient' \<Rightarrow>
                           if recipient_type recipient' = DIRECT_MESSAGE_GROUP
                           then
                             (let cond = Eq (Column ''recipient_id'')
                                            (Literal (PyInt (recipient_id recipient')))
                              in Inr (self', query_where query (transform maybe_negate cond)))
                           else
                             (case filter (\<lambda>user. user_id user \<noteq> user_id me) user_profiles of
                                [] \<Rightarrow>
                                  (let cond = SqlAnd
                                         [Ne (BitAnd (Column ''flags'') (FlagsMask [Flag_is_private]))
                                             (Literal (PyInt 0)),
                                          Eq (Column ''realm_id'')
                                             (Literal (PyInt (realm_id (realm self')))),
                                          Eq (Column ''sender_id'') (Literal (PyInt (user_id me))),
                                          Eq (Column ''recipient_id'')
                                             (Literal (PyInt (recipient_id recipient')))]
                                   in Inr (self', query_where query (transform maybe_negate cond)))
                              | others \<Rightarrow>
                                  (let other_participant = last others;
                                       self_recipient_id = user_recipient_id me;
                                       cond = SqlAnd
                                         [Ne (BitAnd (Column ''flags'') (FlagsMask [Flag_is_private]))
                                             (Literal (PyInt 0)),
                                          Eq (Column ''realm_id'')
                                             (Literal (PyInt (realm_id (realm self')))),
                                          SqlOr
                                            [SqlAnd
                                               [Eq (Column ''sender_id'')
                                                   (Literal (PyInt (user_id other_participant))),
                                                Eq (Column ''recipient_id'')
                                                   (Literal (PyInt self_recipient_id))],
                                             SqlAnd
                                               [Eq (Column ''sender_id'')
                                                   (Literal (PyInt (user_id me))),
                                                Eq (Column ''recipient_id'')
                                                   (Literal (PyInt (recipient_id recipient')))]]]
                                   in Inr (self', query_where query
                                             (transform maybe_negate cond))))))))"

text \<open>
  \<^verbatim>\<open>_get_direct_message_group_recipients\<close>: the group conversations that both users
  are subscribed to, as the intersection of two sets.
\<close>

definition get_direct_message_group_recipients ::
  "collaborators \<Rightarrow> user_profile \<Rightarrow> user_profile \<Rightarrow> int list" where
  "get_direct_message_group_recipients env me other_user =
     (let self_recipient_ids = direct_message_group_subscriptions env me;
          narrow_recipient_ids = direct_message_group_subscriptions env other_user
      in filter (\<lambda>r. r \<in> set narrow_recipient_ids) (remdups self_recipient_ids))"

definition by_dm_including :: by_method where
  "by_dm_including env self query operand' maybe_negate =
     (if is_web_public_query self then Inl AssertionError
      else case user_profile self of
        None \<Rightarrow> Inl AssertionError
      | Some me \<Rightarrow>
          (case check_not_both_channel_and_dm_narrow self maybe_negate True False of
             Inl e \<Rightarrow> Inl e
           | Inr self' \<Rightarrow>
               (case (case operand' of
                        PyStr email \<Rightarrow>
                          Inr (get_user_including_cross_realm env email (realm self'))
                      | PyInt i \<Rightarrow>
                          Inr (get_user_by_id_in_realm_including_cross_realm env i (realm self'))
                      | PyIntList xs \<Rightarrow> Inl TypeError) of
                  Inl e \<Rightarrow> Inl e
                | Inr None \<Rightarrow>
                  (case py_str operand' of
                     Inl e \<Rightarrow> Inl e
                   | Inr s \<Rightarrow> Inl (BadNarrowOperatorError (''unknown user '' @ s)))
                | Inr (Some narrow_user_profile) \<Rightarrow>
                    if user_id narrow_user_profile = user_id me
                    then
                      (let cond = Ne (BitAnd (Column ''flags'') (FlagsMask [Flag_is_private]))
                                     (Literal (PyInt 0))
                       in Inr (self', query_where query (transform maybe_negate cond)))
                    else
                      (let direct_message_group_recipient_ids =
                             get_direct_message_group_recipients env me narrow_user_profile;
                           self_recipient_id = user_recipient_id me;
                           cond = SqlAnd
                             [Ne (BitAnd (Column ''flags'') (FlagsMask [Flag_is_private]))
                                 (Literal (PyInt 0)),
                              Eq (Column ''realm_id'') (Literal (PyInt (realm_id (realm self')))),
                              SqlOr
                                [SqlAnd
                                   [Eq (Column ''sender_id'')
                                       (Literal (PyInt (user_id narrow_user_profile))),
                                    Eq (Column ''recipient_id'')
                                       (Literal (PyInt self_recipient_id))],
                                 SqlAnd
                                   [Eq (Column ''sender_id'') (Literal (PyInt (user_id me))),
                                    Eq (Column ''recipient_id'')
                                       (Literal (PyInt (user_recipient_id narrow_user_profile)))],
                                 SqlAnd
                                   [In_list (Column ''recipient_id'')
                                      (map Some direct_message_group_recipient_ids)]]]
                       in Inr (self', query_where query (transform maybe_negate cond))))))"

definition by_group_pm_with :: by_method where
  "by_group_pm_with env self query operand' maybe_negate =
     (if is_web_public_query self then Inl AssertionError
      else case user_profile self of
        None \<Rightarrow> Inl AssertionError
      | Some me \<Rightarrow>
          (case check_not_both_channel_and_dm_narrow self maybe_negate True False of
             Inl e \<Rightarrow> Inl e
           | Inr self' \<Rightarrow>
               (case (case operand' of
                        PyStr email \<Rightarrow>
                          Inr (get_user_including_cross_realm env email (realm self'))
                      | PyInt i \<Rightarrow>
                          Inr (get_user_by_id_in_realm_including_cross_realm env i (realm self'))
                      | PyIntList xs \<Rightarrow> Inl TypeError) of
                  Inl e \<Rightarrow> Inl e
                | Inr None \<Rightarrow>
                  (case py_str operand' of
                     Inl e \<Rightarrow> Inl e
                   | Inr s \<Rightarrow> Inl (BadNarrowOperatorError (''unknown user '' @ s)))
                | Inr (Some narrow_profile) \<Rightarrow>
                    (let recipient_ids = get_direct_message_group_recipients env me narrow_profile;
                         cond = SqlAnd
                           [Ne (BitAnd (Column ''flags'') (FlagsMask [Flag_is_private]))
                               (Literal (PyInt 0)),
                            Eq (Column ''realm_id'') (Literal (PyInt (realm_id (realm self')))),
                            In_list (Column ''recipient_id'') (map Some recipient_ids)]
                     in Inr (self', query_where query (transform maybe_negate cond))))))"

section \<open>Full-text search\<close>

definition TS_START :: string where
  "TS_START = ''<ts-match>''"

definition TS_STOP :: string where
  "TS_STOP = ''</ts-match>''"

text \<open>
  \<^verbatim>\<open>ts_locs_array\<close>: the expression for the match offsets, an array computed from a
  subquery that is evaluated for the row it stands in.
\<close>

definition ts_locs_array :: "expr \<Rightarrow> expr \<Rightarrow> expr \<Rightarrow> expr" where
  "ts_locs_array config text' tsquery =
     (let options = ''HighlightAll = TRUE, StartSel = '' @ TS_START @ '', StopSel = '' @ TS_STOP;
          delimited = Func ''ts_headline'' [config, text', tsquery, Literal (PyStr options)];
          part = Func ''unnest'' [Func ''string_to_array'' [delimited, Literal (PyStr TS_START)]];
          part_len = Func ''-'' [Func ''length'' [part], Literal (PyInt (int (length TS_STOP)))];
          match_pos = Func ''+'' [Func ''sum_over_preceding_rows'' [part_len],
                                  Literal (PyInt (int (length TS_STOP)))];
          match_len = Func ''-'' [Func ''strpos'' [part, Literal (PyStr TS_STOP)],
                                  Literal (PyInt 1)]
      in Func ''array'' [ScalarSubquery ''offset 1'' [Func ''ARRAY'' [match_pos, match_len]]])"

definition by_search_pgroonga :: by_method where
  "by_search_pgroonga env self query operand' maybe_negate =
     (let operand_escaped = Func ''escape_html'' [Literal operand'];
          keywords = Func ''pgroonga_query_extract_keywords'' [operand_escaped];
          query' = add_columns query
            [Label (Func ''pgroonga_match_positions_character''
                      [Column ''rendered_content'', keywords]) ''content_matches'',
             Label (Func ''pgroonga_match_positions_character''
                      [Func ''escape_html'' [topic_column_sa env], keywords]) ''topic_matches''];
          condition = BinOp (Column ''search_pgroonga'') ''&@~'' operand_escaped
      in Inr (self, query_where query' (transform maybe_negate condition)))"

text \<open>
  The regular expression \<^verbatim>\<open>"[^"]+"|\S+\<close> that splits a search operand into quoted
  phrases and words, and the loop of \<^verbatim>\<open>_by_search_tsearch\<close> over its matches: a
  match that begins and ends with a double quote adds a substring condition on the
  content or, for channel messages, on the topic.
\<close>

definition search_terms_regex :: string where
  "search_terms_regex =
     [CHR 0x22] @ ''[^'' @ [CHR 0x22] @ '']+'' @ [CHR 0x22] @ ''|'' @ [CHR 0x5C] @ ''S+''"

fun add_phrase_conditions ::
  "collaborators \<Rightarrow> condition_transform \<Rightarrow> select \<Rightarrow> string list \<Rightarrow> select" where
  "add_phrase_conditions env maybe_negate query [] = query"
| "add_phrase_conditions env maybe_negate query (t # ts) =
     (if t \<noteq> [] \<and> hd t = CHR 0x22 \<and> last t = CHR 0x22
      then
        (let t1 = butlast (tl t);
             t2 = ''%'' @ prep_for_like_query env t1 @ ''%'';
             cond = SqlOr
               [Ilike (Column ''content'') t2,
                SqlAnd [Ilike (topic_column_sa env) t2, IsTrue (Column ''is_channel_message'')]]
         in add_phrase_conditions env maybe_negate
              (query_where query (transform maybe_negate cond)) ts)
      else add_phrase_conditions env maybe_negate query ts)"

definition by_search_tsearch :: by_method where
  "by_search_tsearch env self query operand' maybe_negate =
     (let tsquery = Func ''plainto_tsquery''
                      [Literal (PyStr ''zulip.english_us_search''), Literal operand'];
          query1 = add_columns query
            [Label (ts_locs_array (Literal (PyStr ''zulip.english_us_search''))
                      (Column ''rendered_content'') tsquery) ''content_matches'',
             Label (ts_locs_array (Literal (PyStr ''zulip.english_us_search''))
                      (Func ''escape_html'' [topic_column_sa env]) tsquery) ''topic_matches'']
      in case operand' of
           PyStr s \<Rightarrow>
             (let query2 = add_phrase_conditions env maybe_negate query1
                             (re_findall env search_terms_regex s);
                  cond = BinOp (Column ''search_tsvector'') ''@@'' tsquery
              in Inr (self, query_where query2 (transform maybe_negate cond)))
         | _ \<Rightarrow> Inl TypeError)"

definition by_search :: by_method where
  "by_search env self query operand' maybe_negate =
     (if USING_PGROONGA env then by_search_pgroonga env self query operand' maybe_negate
      else by_search_tsearch env self query operand' maybe_negate)"

section \<open>Adding a term\<close>

text \<open>
  \<^verbatim>\<open>by_method_map\<close>, with the legacy aliases, and \<^verbatim>\<open>add_term\<close>.
\<close>

definition by_method_map :: "string \<Rightarrow> by_method option" where
  "by_method_map =
     map_of
       [(''has'', by_has),
        (''in'', by_in),
        (''is'', by_is),
        (''channel'', by_channel),
        (''stream'', by_channel),
        (''channels'', by_channels),
        (''streams'', by_channels),
        (''topic'', by_topic),
        (''sender'', by_sender),
        (''near'', by_near),
        (''id'', by_id),
        (''search'', by_search),
        (''dm'', by_dm),
        (''pm-with'', by_dm),
        (''dm-including'', by_dm_including),
        (''group-pm-with'', by_group_pm_with),
        (''pm_with'', by_dm),
        (''group_pm_with'', by_group_pm_with)]"

definition add_term ::
  "collaborators \<Rightarrow> narrow_builder \<Rightarrow> select \<Rightarrow> narrow_parameter
     \<Rightarrow> error + narrow_builder \<times> select" where
  "add_term env self query t =
     (case by_method_map (operator t) of
        None \<Rightarrow> Inl (BadNarrowOperatorError (''unknown operator '' @ operator t))
      | Some by_method' \<Rightarrow>
          by_method' env self query (operand t)
            (if negated t then Sql_not else Keep_cond))"

section \<open>Compiling a narrow\<close>

text \<open>
  The loop of \<^verbatim>\<open>add_narrow_conditions\<close>: every term but the \<^verbatim>\<open>search\<close> terms is
  added in order, and the operands of the \<^verbatim>\<open>search\<close> terms are collected.
\<close>

fun add_terms_loop ::
  "collaborators \<Rightarrow> narrow_builder \<Rightarrow> select \<Rightarrow> py_value list \<Rightarrow> narrow_parameter list
     \<Rightarrow> error + narrow_builder \<times> select \<times> py_value list" where
  "add_terms_loop env builder query search_operands [] = Inr (builder, query, search_operands)"
| "add_terms_loop env builder query search_operands (t # ts) =
     (if operator t = ''search''
      then add_terms_loop env builder query (search_operands @ [operand t]) ts
      else case add_term env builder query t of
        Inl e \<Rightarrow> Inl e
      | Inr (builder', query') \<Rightarrow> add_terms_loop env builder' query' search_operands ts)"

text \<open>\<^verbatim>\<open>" ".join(search_operands)\<close>: a \<open>TypeError\<close> unless every operand is a string.\<close>

fun strings_of :: "py_value list \<Rightarrow> error + string list" where
  "strings_of [] = Inr []"
| "strings_of (PyStr s # vs) =
     (case strings_of vs of Inl e \<Rightarrow> Inl e | Inr ss \<Rightarrow> Inr (s # ss))"
| "strings_of (v # vs) = Inl TypeError"

text \<open>
  \<^verbatim>\<open>add_narrow_conditions\<close>: the result is the query, \<open>is_search\<close> and the builder's
  \<open>is_dm_narrow\<close>.
\<close>

definition add_narrow_conditions ::
  "collaborators \<Rightarrow> user_profile option \<Rightarrow> expr \<Rightarrow> select \<Rightarrow> narrow_parameter list option
     \<Rightarrow> bool \<Rightarrow> realm \<Rightarrow> error + select \<times> bool \<times> bool" where
  "add_narrow_conditions env user_profile' inner_msg_id_col query narrow
       is_web_public_query' realm' =
     (case narrow of
        None \<Rightarrow> Inr (query, False, False)
      | Some terms \<Rightarrow>
          (let builder = NarrowBuilder user_profile' inner_msg_id_col realm' is_web_public_query'
           in case add_terms_loop env builder query [] terms of
                Inl e \<Rightarrow> Inl e
              | Inr (builder1, query1, search_operands) \<Rightarrow>
                  if search_operands \<noteq> []
                  then
                    (let query2 = add_columns query1
                           [Label (Func ''escape_html'' [topic_column_sa env]) ''escaped_topic_name'',
                            Column ''rendered_content'']
                     in case strings_of search_operands of
                          Inl e \<Rightarrow> Inl e
                        | Inr ss \<Rightarrow>
                            (case NarrowParameter ''search'' (PyStr (join_with '' '' ss)) of
                               Inl e \<Rightarrow> Inl e
                             | Inr search_term \<Rightarrow>
                                 (case add_term env builder1 query2 search_term of
                                    Inl e \<Rightarrow> Inl e
                                  | Inr (builder2, query3) \<Rightarrow>
                                      Inr (query3, True, is_dm_narrow builder2))))
                  else Inr (query1, False, is_dm_narrow builder1)))"

section \<open>History policy\<close>

text \<open>
  \<^verbatim>\<open>ok_to_include_history\<close>. Its first loop sets \<open>include_history\<close> from every
  channel term that is not negated (the by-id check is given the operand when it is not
  a string, which is a \<open>TypeError\<close> for a list) and from a \<^verbatim>\<open>channels:public\<close> term
  that is not negated; its second loop resets it for every \<^verbatim>\<open>is\<close> term other than
  \<^verbatim>\<open>is:resolved\<close>.
\<close>

fun include_history_loop ::
  "collaborators \<Rightarrow> user_profile \<Rightarrow> bool \<Rightarrow> narrow_parameter list \<Rightarrow> error + bool" where
  "include_history_loop env user include_history [] = Inr include_history"
| "include_history_loop env user include_history (t # ts) =
     (if operator t \<in> set channel_operators \<and> \<not> negated t
      then
        (case operand t of
           PyStr s \<Rightarrow>
             include_history_loop env user (can_access_stream_history_by_name env user s) ts
         | PyInt i \<Rightarrow>
             include_history_loop env user (can_access_stream_history_by_id env user i) ts
         | PyIntList xs \<Rightarrow> Inl TypeError)
      else if operator t \<in> set channels_operators
              \<and> operand t = PyStr ''public''
              \<and> \<not> negated t
              \<and> can_access_public_streams user
      then include_history_loop env user True ts
      else include_history_loop env user include_history ts)"

fun disable_history_loop :: "bool \<Rightarrow> narrow_parameter list \<Rightarrow> bool" where
  "disable_history_loop include_history [] = include_history"
| "disable_history_loop include_history (t # ts) =
     (if operator t = ''is'' \<and> operand t \<noteq> PyStr ''resolved''
      then disable_history_loop False ts
      else disable_history_loop include_history ts)"

definition ok_to_include_history ::
  "collaborators \<Rightarrow> narrow_parameter list option \<Rightarrow> user_profile option \<Rightarrow> bool
     \<Rightarrow> error + bool" where
  "ok_to_include_history env narrow user_profile' is_web_public_query' =
     (if is_web_public_query'
      then (if user_profile' \<noteq> None then Inl AssertionError else Inr True)
      else case user_profile' of
        None \<Rightarrow> Inl AssertionError
      | Some user \<Rightarrow>
          (case narrow of
             None \<Rightarrow> Inr False
           | Some terms \<Rightarrow>
               (case include_history_loop env user False terms of
                  Inl e \<Rightarrow> Inl e
                | Inr include_history \<Rightarrow> Inr (disable_history_loop include_history terms))))"

section \<open>Normalising a narrow\<close>

text \<open>
  \<^verbatim>\<open>can_narrow_define_conversation\<close>: the loop returns at a \<^verbatim>\<open>dm\<close> term, and as
  soon as a channel term and a topic term have both been seen.
\<close>

fun define_conversation_loop :: "bool \<Rightarrow> bool \<Rightarrow> narrow_parameter list \<Rightarrow> bool" where
  "define_conversation_loop contains_channel_term contains_topic_term [] = False"
| "define_conversation_loop contains_channel_term contains_topic_term (t # ts) =
     (if operator t \<in> set [''dm'', ''pm-with''] then True
      else
        (let contains_channel_term' =
               (if operator t \<in> set [''stream'', ''channel''] then True
                else contains_channel_term);
             contains_topic_term' =
               (if operator t \<notin> set [''stream'', ''channel''] \<and> operator t = ''topic'' then True
                else contains_topic_term)
         in if contains_channel_term' \<and> contains_topic_term' then True
            else define_conversation_loop contains_channel_term' contains_topic_term' ts))"

definition can_narrow_define_conversation :: "narrow_parameter list \<Rightarrow> bool" where
  "can_narrow_define_conversation narrow = define_conversation_loop False False narrow"

text \<open>
  \<^verbatim>\<open>update_narrow_terms_containing_empty_topic_fallback_name\<close>: the operand of the
  first \<^verbatim>\<open>topic\<close> term is renamed.
\<close>

fun rename_first_topic :: "collaborators \<Rightarrow> narrow_parameter list \<Rightarrow> narrow_parameter list" where
  "rename_first_topic env [] = []"
| "rename_first_topic env (t # ts) =
     (if operator t = ''topic''
      then t\<lparr>operand := maybe_rename_general_chat_to_empty_topic env (operand t)\<rparr> # ts
      else t # rename_first_topic env ts)"

definition update_narrow_terms_containing_empty_topic_fallback_name ::
  "collaborators \<Rightarrow> narrow_parameter list option \<Rightarrow> narrow_parameter list option" where
  "update_narrow_terms_containing_empty_topic_fallback_name env narrow =
     map_option (rename_first_topic env) narrow"

text \<open>
  \<^verbatim>\<open>update_narrow_terms_containing_with_operator\<close>. The user is \<open>None\<close> for
  \<^verbatim>\<open>AnonymousUser\<close>, who is not authenticated. \<^verbatim>\<open>narrow.remove(with_term)\<close> removes
  the first term equal to the \<^verbatim>\<open>with\<close> term. A message lookup that raises
  \<^verbatim>\<open>JsonableError\<close> (\<^verbatim>\<open>MissingAuthenticationError\<close> for the public lookup) returns
  \<open>None\<close>. The terms built for the conversation are validated as every term is.
\<close>

definition update_narrow_terms_containing_with_operator ::
  "collaborators \<Rightarrow> realm \<Rightarrow> user_profile option \<Rightarrow> narrow_parameter list option
     \<Rightarrow> error + narrow_parameter list option" where
  "update_narrow_terms_containing_with_operator env realm' maybe_user_profile narrow =
     (case narrow of
        None \<Rightarrow> Inr None
      | Some terms \<Rightarrow>
          (let with_operator_terms = filter (\<lambda>t. operator t = ''with'') terms
           in if length with_operator_terms > 1
              then Inl (InvalidOperatorCombinationError ''Duplicate 'with' operators.'')
              else if length with_operator_terms = 0 then Inr (Some terms)
              else
                (let with_term = hd with_operator_terms;
                     terms' = remove1 with_term terms
                 in case py_int_of (operand with_term) of
                      Inl ValueError \<Rightarrow> Inl (BadNarrowOperatorError ''Invalid 'with' operator'')
                    | Inl e \<Rightarrow> Inl e
                    | Inr message_id \<Rightarrow>
                        (case (case maybe_user_profile of
                                 Some user \<Rightarrow> access_message env user message_id
                               | None \<Rightarrow> access_web_public_message env realm' message_id) of
                           None \<Rightarrow>
                             if can_narrow_define_conversation terms' then Inr (Some terms')
                             else Inl (BadNarrowOperatorError ''Invalid 'with' operator'')
                         | Some message' \<Rightarrow>
                             (let filtered_terms =
                                    filter (\<lambda>t. operator t \<notin> set
                                        [''stream'', ''channel'', ''topic'', ''dm'', ''pm-with''])
                                      terms'
                              in if recipient_type (message_recipient message') = STREAM
                                 then
                                   (let channel_id = type_id (message_recipient message');
                                        topic = topic_name message'
                                    in case NarrowParameter ''channel'' (PyInt channel_id) of
                                         Inl e \<Rightarrow> Inl e
                                       | Inr channel_term \<Rightarrow>
                                           (case NarrowParameter ''topic'' (PyStr topic) of
                                              Inl e \<Rightarrow> Inl e
                                            | Inr topic_term \<Rightarrow>
                                                Inr (Some ([channel_term, topic_term]
                                                           @ filtered_terms))))
                                 else if recipient_type (message_recipient message') = PERSONAL
                                 then
                                   (case NarrowParameter ''dm''
                                           (PyIntList [type_id (message_recipient message')]) of
                                      Inl e \<Rightarrow> Inl e
                                    | Inr dm_term \<Rightarrow> Inr (Some ([dm_term] @ filtered_terms)))
                                 else if recipient_type (message_recipient message')
                                           = DIRECT_MESSAGE_GROUP
                                 then
                                   (let huddle_user_ids =
                                          get_direct_message_group_user_ids env
                                            (message_recipient message')
                                    in case NarrowParameter ''dm'' (PyIntList huddle_user_ids) of
                                         Inl e \<Rightarrow> Inl e
                                       | Inr dm_term \<Rightarrow> Inr (Some ([dm_term] @ filtered_terms)))
                                 else Inl AssertionError)))))"

definition clean_narrow_for_message_fetch ::
  "collaborators \<Rightarrow> narrow_parameter list option \<Rightarrow> realm \<Rightarrow> user_profile option
     \<Rightarrow> error + narrow_parameter list option" where
  "clean_narrow_for_message_fetch env narrow realm' maybe_user_profile =
     update_narrow_terms_containing_with_operator env realm' maybe_user_profile
       (update_narrow_terms_containing_empty_topic_fallback_name env narrow)"

section \<open>The base query\<close>

text \<open>
  \<^verbatim>\<open>get_base_query_for_search\<close>: the query and the column that holds the message
  id. Without the per-user join the query reads the messages of the realm; with it, the
  rows of the user's per-message state joined with the message and its recipient, kept
  where the message is a direct message, or is in a channel the user may read as a
  public channel or through a group, or is in a channel the user is subscribed to.
\<close>

definition get_base_query_for_search ::
  "collaborators \<Rightarrow> int \<Rightarrow> user_profile option \<Rightarrow> bool \<Rightarrow> error + select \<times> expr" where
  "get_base_query_for_search env realm_id' user_profile' need_user_message =
     (if \<not> need_user_message
      then
        (let query =
               \<lparr>selected_columns = [Label (Column ''id'') ''message_id''],
                from_obj = Table ''zerver_message'',
                whereclause = [Eq (Column ''realm_id'') (Literal (PyInt realm_id'))],
                order_by_clause = None,
                limit_clause = None\<rparr>;
             inner_msg_id_col = LiteralColumn ''zerver_message.id''
         in Inr (query, inner_msg_id_col))
      else case user_profile' of
        None \<Rightarrow> Inl AssertionError
      | Some user \<Rightarrow>
          (let user_recursive_group_ids =
                 (if \<not> is_guest user then sort (get_recursive_membership_groups env user)
                  else []);
               query =
                 \<lparr>selected_columns = [Column ''message_id''],
                  from_obj =
                    Join
                      (Join (Table ''zerver_usermessage'') ''zerver_message''
                         (Eq (LiteralColumn ''zerver_usermessage.message_id'')
                             (LiteralColumn ''zerver_message.id'')))
                      ''zerver_recipient''
                      (Eq (LiteralColumn ''zerver_message.recipient_id'')
                          (LiteralColumn ''zerver_recipient.id'')),
                  whereclause =
                    [Eq (Column ''user_profile_id'') (Literal (PyInt (user_id user))),
                     SqlOr
                       [Ne (LiteralColumn ''zerver_recipient.type'')
                           (NamedConstant ''Recipient.STREAM''),
                        Exists ''zerver_stream''
                          [Eq (LiteralColumn ''zerver_stream.recipient_id'')
                              (LiteralColumn ''zerver_recipient.id''),
                           SqlOr
                             [SqlAnd
                                [SqlNot (IsTrue (LiteralColumn ''zerver_stream.invite_only'')),
                                 SqlNot (IsTrue (LiteralColumn ''zerver_stream.is_in_zephyr_realm'')),
                                 (if can_access_public_streams user then SqlTrue else SqlFalse)],
                              In_list (LiteralColumn ''zerver_stream.can_subscribe_group_id'')
                                (map Some user_recursive_group_ids),
                              In_list (LiteralColumn ''zerver_stream.can_add_subscribers_group_id'')
                                (map Some user_recursive_group_ids)]],
                        Exists ''zerver_subscription''
                          [Eq (LiteralColumn ''zerver_subscription.user_profile_id'')
                              (Literal (PyInt (user_id user))),
                           Eq (LiteralColumn ''zerver_subscription.recipient_id'')
                              (LiteralColumn ''zerver_recipient.id''),
                           IsTrue (LiteralColumn ''zerver_subscription.active'')]]],
                  order_by_clause = None,
                  limit_clause = None\<rparr>;
               inner_msg_id_col = Column ''message_id''
           in Inr (query, inner_msg_id_col)))"

section \<open>The pagination cursor\<close>

text \<open>
  \<^verbatim>\<open>parse_anchor_value(anchor_val, use_first_unread_anchor)\<close>. The result
  \<open>Inr None\<close> is Python's \<^verbatim>\<open>None\<close>, the encoding of the first unread message.
\<close>

definition parse_anchor_value :: "string option \<Rightarrow> bool \<Rightarrow> error + int option" where
  "parse_anchor_value anchor_val use_first_unread_anchor =
     (if use_first_unread_anchor then Inr None
      else case anchor_val of
        None \<Rightarrow> Inl (JsonableError ''Missing 'anchor' argument.'')
      | Some s \<Rightarrow>
          if s = ''oldest'' then Inr (Some 0)
          else if s = ''newest'' then Inr (Some LARGER_THAN_MAX_MESSAGE_ID)
          else if s = ''first_unread'' then Inr None
          else (case py_int s of
            None \<Rightarrow> Inl (JsonableError ''Invalid anchor'')
          | Some anchor \<Rightarrow>
              if anchor < 0 then Inr (Some 0)
              else if anchor > LARGER_THAN_MAX_MESSAGE_ID then Inr (Some LARGER_THAN_MAX_MESSAGE_ID)
              else Inr (Some anchor)))"

section \<open>The window around the anchor\<close>

text \<open>
  \<^verbatim>\<open>limit_query_to_range\<close>. Python adds a Boolean to an integer as 0 or 1
  (\<open>of_bool\<close>). The bounds and limits of a side are computed only on the paths that
  use them.
\<close>

definition limit_query_to_range ::
  "select \<Rightarrow> int \<Rightarrow> int \<Rightarrow> int \<Rightarrow> bool \<Rightarrow> bool \<Rightarrow> bool \<Rightarrow> expr \<Rightarrow> int \<Rightarrow> select_base" where
  "limit_query_to_range query num_before num_after anchor include_anchor
       anchored_to_left anchored_to_right id_col first_visible_message_id =
     (let need_before_query = ((\<not> anchored_to_left) \<and> num_before > 0);
          need_after_query = ((\<not> anchored_to_right) \<and> num_after > 0);
          need_both_sides = (need_before_query \<and> need_after_query);
          before_anchor = (if need_both_sides then anchor - 1
                           else anchor - of_bool (\<not> include_anchor));
          after_anchor = (if need_both_sides then max anchor first_visible_message_id
                          else max (anchor + of_bool (\<not> include_anchor)) first_visible_message_id);
          before_limit = (if need_both_sides then num_before
                          else if \<not> anchored_to_right then num_before + of_bool include_anchor
                          else num_before);
          after_limit = (if need_both_sides then num_after + 1
                         else num_after + of_bool include_anchor);
          before_query =
            limit (order_by
                     (if \<not> anchored_to_right
                      then query_where query (Le id_col (Literal (PyInt before_anchor)))
                      else query)
                     id_col Desc)
                  before_limit;
          after_query =
            limit (order_by
                     (if \<not> anchored_to_left
                      then query_where query (Ge id_col (Literal (PyInt after_anchor)))
                      else query)
                     id_col Asc)
                  after_limit
      in if need_both_sides then UnionAll before_query after_query
         else if need_before_query then Select before_query
         else if need_after_query then Select after_query
         else Select (query_where query (Eq id_col (Literal (PyInt anchor)))))"

record 'r limited_messages =
  rows :: "'r list"
  found_anchor :: bool
  found_newest :: bool
  found_oldest :: bool
  history_limited :: bool

text \<open>
  \<^verbatim>\<open>post_process_limited_query\<close>. \<^verbatim>\<open>r[0]\<close> is the message id of a row. The two
  truncations run only for a count that is not zero (\<^verbatim>\<open>if num_before:\<close>), and the
  lengths compared for \<open>found_oldest\<close> and \<open>found_newest\<close> are those after the
  truncation.
\<close>

definition post_process_limited_query ::
  "(int \<times> 'c) list \<Rightarrow> int \<Rightarrow> int \<Rightarrow> int \<Rightarrow> bool \<Rightarrow> bool \<Rightarrow> int \<Rightarrow> (int \<times> 'c) limited_messages" where
  "post_process_limited_query fetched num_before num_after anchor
       anchored_to_left anchored_to_right first_visible_message_id =
     (let visible_rows = (if first_visible_message_id > 0
                          then filter (\<lambda>r. fst r \<ge> first_visible_message_id) fetched
                          else fetched);
          rows_limited = (length visible_rows \<noteq> length fetched);
          num_after' = (if anchored_to_right then 0 else num_after);
          before_rows = (if anchored_to_right then visible_rows
                         else filter (\<lambda>r. fst r < anchor) visible_rows);
          anchor_rows = (if anchored_to_right then []
                         else filter (\<lambda>r. fst r = anchor) visible_rows);
          after_rows = (if anchored_to_right then []
                        else filter (\<lambda>r. fst r > anchor) visible_rows);
          before_rows' = (if num_before \<noteq> 0 then py_slice_from (-1 * num_before) before_rows
                          else before_rows);
          after_rows' = (if num_after' \<noteq> 0 then py_slice_to num_after' after_rows
                         else after_rows);
          limited_rows = before_rows' @ anchor_rows @ after_rows';
          found_anchor' = (length anchor_rows = 1);
          found_oldest' = (anchored_to_left \<or> int (length before_rows') < num_before);
          found_newest' = (anchored_to_right \<or> int (length after_rows') < num_after')
      in \<lparr>rows = limited_rows,
          found_anchor = found_anchor',
          found_newest = found_newest',
          found_oldest = found_oldest',
          history_limited = (rows_limited \<and> found_oldest')\<rparr>)"

section \<open>Fetching a page\<close>

text \<open>
  \<^verbatim>\<open>find_first_unread_anchor\<close>: the id of the first unread row of the compiled
  narrow, or \<open>LARGER_THAN_MAX_MESSAGE_ID\<close> when there is none or the user is anonymous.
  The query runs on the store \<open>db\<close>.
\<close>

definition find_first_unread_anchor ::
  "collaborators \<Rightarrow> 'c database \<Rightarrow> user_profile option \<Rightarrow> narrow_parameter list option
     \<Rightarrow> error + int" where
  "find_first_unread_anchor env db user_profile' narrow =
     (case user_profile' of
        None \<Rightarrow> Inr LARGER_THAN_MAX_MESSAGE_ID
      | Some user \<Rightarrow>
          (case get_base_query_for_search env (realm_id (user_realm user)) (Some user) True of
             Inl e \<Rightarrow> Inl e
           | Inr (query, inner_msg_id_col) \<Rightarrow>
               (case add_narrow_conditions env (Some user) inner_msg_id_col
                       (add_columns query [Column ''flags'']) narrow False (user_realm user) of
                  Inl e \<Rightarrow> Inl e
                | Inr (query', is_search', is_dm_narrow') \<Rightarrow>
                    (let condition = Eq (BitAnd (Column ''flags'') (FlagsMask [Flag_read]))
                                        (Literal (PyInt 0));
                         muting_conditions =
                           (if \<not> is_dm_narrow' then exclude_muting_conditions env user narrow
                            else []);
                         condition' =
                           (if muting_conditions \<noteq> [] then SqlAnd (condition # muting_conditions)
                            else condition);
                         first_unread_query =
                           limit (order_by (query_where query' condition') inner_msg_id_col Asc) 1;
                         first_unread_result = execute_select db first_unread_query
                     in case first_unread_result of
                          [] \<Rightarrow> Inr LARGER_THAN_MAX_MESSAGE_ID
                        | r # rs \<Rightarrow> Inr (fst r)))))"

record 'r fetched_messages = "'r limited_messages" +
  anchor :: "int option"
  include_history :: bool
  is_search :: bool

text \<open>
  The part of \<^verbatim>\<open>fetch_messages\<close> that runs for a request without a list of message
  ids, once the narrow is compiled and the anchor is resolved: the two flags are
  computed from the anchor, \<open>num_after\<close> is set to 0 when anchored to the right, the
  window planned by \<open>limit_query_to_range\<close> is read in ascending order of message id,
  and \<open>post_process_limited_query\<close> cuts the rows to the page.
\<close>

definition fetch_window ::
  "'c database \<Rightarrow> select \<Rightarrow> expr \<Rightarrow> int \<Rightarrow> bool \<Rightarrow> int \<Rightarrow> int \<Rightarrow> int
     \<Rightarrow> (int \<times> 'c) limited_messages" where
  "fetch_window db query inner_msg_id_col anchor' include_anchor num_before num_after
       first_visible_message_id =
     (let anchored_to_left = (anchor' = 0);
          anchored_to_right = (anchor' \<ge> LARGER_THAN_MAX_MESSAGE_ID);
          num_after' = (if anchored_to_right then 0 else num_after);
          main_query =
            limit_query_to_range query num_before num_after' anchor' include_anchor
              anchored_to_left anchored_to_right inner_msg_id_col first_visible_message_id;
          fetched = execute db (OrderedSubquery main_query (Column ''message_id'') Asc)
      in post_process_limited_query fetched num_before num_after' anchor'
           anchored_to_left anchored_to_right first_visible_message_id)"

text \<open>
  \<^verbatim>\<open>fetch_messages\<close>, on the store \<open>db\<close>. With a list of message ids from the
  client, the compiled query is restricted to them and the rows at or above the
  visibility floor are returned as they are. Otherwise the anchor is resolved
  (\<open>None\<close> is the first unread message) and the window around it is fetched.
\<close>

definition fetch_messages ::
  "collaborators \<Rightarrow> 'c database \<Rightarrow> narrow_parameter list option \<Rightarrow> user_profile option \<Rightarrow> realm
     \<Rightarrow> bool \<Rightarrow> int option \<Rightarrow> bool \<Rightarrow> int \<Rightarrow> int \<Rightarrow> int list option
     \<Rightarrow> error + (int \<times> 'c) fetched_messages" where
  "fetch_messages env db narrow user_profile' realm' is_web_public_query' anchor'
       include_anchor num_before num_after client_requested_message_ids =
     (case ok_to_include_history env narrow user_profile' is_web_public_query' of
        Inl e \<Rightarrow> Inl e
      | Inr include_history' \<Rightarrow>
          (let need_user_message = (\<not> include_history')
           in case get_base_query_for_search env (realm_id realm') user_profile'
                     need_user_message of
                Inl e \<Rightarrow> Inl e
              | Inr (query0, inner_msg_id_col) \<Rightarrow>
                  (let query1 = (if need_user_message then add_columns query0 [Column ''flags'']
                                 else query0)
                   in case add_narrow_conditions env user_profile' inner_msg_id_col query1 narrow
                             is_web_public_query' realm' of
                        Inl e \<Rightarrow> Inl e
                      | Inr (query, is_search', is_dm_narrow') \<Rightarrow>
                          (let first_visible_message_id = get_first_visible_message_id env realm'
                           in case client_requested_message_ids of
                                Some ids \<Rightarrow>
                                  (let fetched = execute_select db
                                         (query_where query (In_list inner_msg_id_col (map Some ids)));
                                       visible_rows =
                                         (if first_visible_message_id > 0
                                          then filter (\<lambda>r. fst r \<ge> first_visible_message_id) fetched
                                          else fetched)
                                   in Inr \<lparr>rows = visible_rows,
                                           found_anchor = False,
                                           found_newest = False,
                                           found_oldest = False,
                                           history_limited = False,
                                           anchor = None,
                                           include_history = include_history',
                                           is_search = is_search'\<rparr>)
                              | None \<Rightarrow>
                                  (case (case anchor' of
                                           None \<Rightarrow> find_first_unread_anchor env db user_profile' narrow
                                         | Some a \<Rightarrow> Inr a) of
                                     Inl e \<Rightarrow> Inl e
                                   | Inr anchor'' \<Rightarrow>
                                       (let query_info =
                                              fetch_window db query inner_msg_id_col anchor''
                                                include_anchor num_before num_after
                                                first_visible_message_id
                                        in Inr \<lparr>rows = rows query_info,
                                                found_anchor = found_anchor query_info,
                                                found_newest = found_newest query_info,
                                                found_oldest = found_oldest query_info,
                                                history_limited = history_limited query_info,
                                                anchor = Some anchor'',
                                                include_history = include_history',
                                                is_search = is_search'\<rparr>))))))"

section \<open>Vocabulary of the properties\<close>

text \<open>
  What a handler may do to the query it is given: add conditions and add columns, and
  nothing else. \<open>extends_query query' query\<close> says that \<open>query'\<close> is \<open>query\<close> with
  conditions and columns appended.
\<close>

definition extends_query :: "select \<Rightarrow> select \<Rightarrow> bool" where
  "extends_query query' query =
     (from_obj query' = from_obj query
      \<and> order_by_clause query' = order_by_clause query
      \<and> limit_clause query' = limit_clause query
      \<and> take (length (whereclause query)) (whereclause query') = whereclause query
      \<and> take (length (selected_columns query)) (selected_columns query')
          = selected_columns query)"

text \<open>
  The terms that scope a narrow to channels or to direct messages, read off the
  handlers that call \<open>check_not_both_channel_and_dm_narrow\<close>: the handlers of the
  channel-scoped operators pass \<open>is_channel_narrow\<close>, those of the DM-scoped operators
  and of \<^verbatim>\<open>is:dm\<close> and \<^verbatim>\<open>is:private\<close> pass \<open>is_dm_narrow\<close>. A term asks for the
  channel marker when it is channel-scoped and not negated, and also when it is a
  negated \<^verbatim>\<open>is:dm\<close> or \<^verbatim>\<open>is:private\<close>; it asks for the DM marker when it is
  DM-scoped and not negated.
\<close>

definition both_narrow_error :: error where
  "both_narrow_error =
     BadNarrowOperatorError ''No message can be both a channel message and direct message''"

definition is_dm_term :: "narrow_parameter \<Rightarrow> bool" where
  "is_dm_term t = (operator t = ''is'' \<and> operand t \<in> set [PyStr ''dm'', PyStr ''private''])"

definition channel_scoped :: "narrow_parameter \<Rightarrow> bool" where
  "channel_scoped t =
     (operator t \<in> set [''channel'', ''stream'', ''channels'', ''streams'', ''topic''])"

definition dm_scoped :: "narrow_parameter \<Rightarrow> bool" where
  "dm_scoped t =
     (operator t \<in> set [''dm'', ''pm-with'', ''pm_with'', ''dm-including'',
                          ''group-pm-with'', ''group_pm_with'']
      \<or> is_dm_term t)"

definition requests_channel :: "narrow_parameter \<Rightarrow> bool" where
  "requests_channel t =
     ((channel_scoped t \<and> \<not> negated t) \<or> (is_dm_term t \<and> negated t))"

definition requests_dm :: "narrow_parameter \<Rightarrow> bool" where
  "requests_dm t = (dm_scoped t \<and> \<not> negated t)"

section \<open>A small deployment\<close>

text \<open>
  Concrete collaborators on which the definitions can be run: one realm, one public
  channel "general" (id 1, recipient 50), the users 7 and 8 (found by id only), a
  channel message 5 in topic "T" of the channel that every user may read, no mutes, no
  groups, and a visibility floor of 0. The regular expression helpers are crude
  stand-ins that return the whole string.
\<close>

definition example_realm :: realm where
  "example_realm = \<lparr>realm_id = 1, is_zephyr_mirror_realm = False\<rparr>"

definition example_user :: "int \<Rightarrow> user_profile" where
  "example_user i =
     \<lparr>user_id = i, user_recipient_id = 100 + i, user_realm = example_realm,
      is_guest = False, can_access_public_streams = True\<rparr>"

definition example_stream :: stream where
  "example_stream =
     \<lparr>stream_id = 1, stream_name = ''general'', stream_recipient_id = Some 50,
      stream_is_web_public = False, stream_is_public = True\<rparr>"

definition example_message :: message where
  "example_message =
     \<lparr>message_recipient = \<lparr>recipient_id = 50, recipient_type = STREAM, type_id = 1\<rparr>,
      topic_name = ''T''\<rparr>"

definition example_collaborators :: collaborators where
  "example_collaborators =
     \<lparr>USING_PGROONGA = False,
      MAX_POSSIBLE_MESSAGE_ID = 2147483647,
      get_stream_by_narrow_operand_access_unchecked =
        (\<lambda>v r. if v = PyInt 1 \<or> v = PyStr ''general'' then Some example_stream else None),
      get_active_streams_name_iregex = (\<lambda>r p. []),
      get_public_streams_queryset = (\<lambda>r. [example_stream]),
      get_web_public_streams_queryset = (\<lambda>r. []),
      get_user_including_cross_realm = (\<lambda>email r. None),
      get_user_by_id_in_realm_including_cross_realm =
        (\<lambda>i r. if i = 7 \<or> i = 8 then Some (example_user i) else None),
      get_user_profiles = (\<lambda>emails r. None),
      get_user_profiles_by_ids =
        (\<lambda>ids r. if list_all (\<lambda>i. i = 7 \<or> i = 8) ids then Some (map example_user ids)
                  else None),
      recipient_for_user_profiles =
        (\<lambda>users me. case users of
                        [] \<Rightarrow> RecipientInvalid
                      | u # us \<Rightarrow>
                          RecipientFound \<lparr>recipient_id = user_recipient_id u,
                                          recipient_type = PERSONAL,
                                          type_id = user_id u\<rparr>),
      direct_message_group_subscriptions = (\<lambda>u. []),
      get_direct_message_group_user_ids = (\<lambda>r. []),
      get_recursive_membership_groups = (\<lambda>u. []),
      exclude_stream_and_topic_mutes = (\<lambda>conditions u channel_id. conditions),
      topic_match_sa = (\<lambda>topic. Eq (Func ''upper'' [Column ''subject''])
                                   (Func ''upper'' [Literal (PyStr topic)])),
      topic_column_sa = Column ''subject'',
      get_resolved_topic_condition_sa = IsTrue (Column ''is_resolved''),
      get_followed_topic_condition_sa = (\<lambda>i. Exists ''zerver_usertopic'' []),
      maybe_rename_general_chat_to_empty_topic = (\<lambda>v. v),
      can_access_stream_history_by_name = (\<lambda>u s. s = ''general''),
      can_access_stream_history_by_id = (\<lambda>u i. i = 1),
      access_message = (\<lambda>u i. if i = 5 then Some example_message else None),
      access_web_public_message = (\<lambda>r i. None),
      get_first_visible_message_id = (\<lambda>r. 0),
      re_search_group = (\<lambda>pattern s. Some s),
      re_findall = (\<lambda>pattern s. [s]),
      prep_for_like_query = (\<lambda>s. s)\<rparr>"

section \<open>Running the definitions\<close>

lemmas example_defs = example_collaborators_def example_realm_def example_user_def
  example_stream_def example_message_def

section \<open>Properties of the cursor and the window\<close>

lemma py_digits_decimal:
  "list_all is_decimal s \<Longrightarrow> py_digits acc s = Some (foldl (\<lambda>a c. 10 * a + digit_of c) acc s)"
  by (induction acc s rule: py_digits.induct) auto

lemma is_decimal_not_space: "is_decimal c \<Longrightarrow> \<not> int_space c"
  by (auto simp: is_decimal_def int_space_def)

lemma is_decimal_not_sign: "is_decimal c \<Longrightarrow> c \<noteq> CHR ''-'' \<and> c \<noteq> CHR ''+''"
  by (auto simp: is_decimal_def)

lemma strip_decimal:
  assumes "s \<noteq> []" "list_all is_decimal s"
  shows "dropWhile int_space s = s" "rev (dropWhile int_space (rev s)) = s"
proof -
  from assms obtain c cs where s: "s = c # cs" by (cases s) auto
  with assms show "dropWhile int_space s = s" by (simp add: is_decimal_not_space)
  from assms have "is_decimal (last s)" by (metis last_in_set list_all_iff)
  then have "\<not> int_space (hd (rev s))" using assms(1) by (simp add: hd_rev is_decimal_not_space)
  then have "dropWhile int_space (rev s) = rev s" using assms(1) by (cases "rev s") auto
  then show "rev (dropWhile int_space (rev s)) = s" by simp
qed

lemma filter_decimal: "list_all is_decimal s \<Longrightarrow> filter is_decimal s = s"
  by (simp add: list_all_iff)

lemma py_int_decimal:
  assumes "s \<noteq> []" "list_all is_decimal s" "length s \<le> int_max_str_digits"
  shows "py_int s = Some (decimal_value s)"
    and "py_int (CHR ''-'' # s) = Some (- decimal_value s)"
proof -
  from assms obtain c cs where s: "s = c # cs" and c: "is_decimal c" and cs: "list_all is_decimal cs"
    by (cases s) auto
  have ns: "\<not> int_space (CHR ''-'')" by (simp add: int_space_def)
  have f: "length (filter is_decimal (c # cs)) \<le> int_max_str_digits"
    using filter_decimal[OF assms(2)] assms(3) by (simp add: s)
  show "py_int s = Some (decimal_value s)"
    using strip_decimal[OF assms(1,2)] is_decimal_not_sign[OF c] c cs f
    by (simp add: py_int_def Let_def s py_digits_decimal decimal_value_def)
  show "py_int (CHR ''-'' # s) = Some (- decimal_value s)"
    using strip_decimal[OF assms(1,2)] c cs ns f
    by (simp add: py_int_def Let_def s py_digits_decimal decimal_value_def)
qed

lemma py_int_too_long:
  assumes "list_all is_decimal s" "int_max_str_digits < length s"
  shows "py_int s = None" and "py_int (CHR ''-'' # s) = None"
proof -
  from assms have ne: "s \<noteq> []" by auto
  then obtain c cs where s: "s = c # cs" by (cases s) auto
  with assms have c: "is_decimal c" by simp
  have ns: "\<not> int_space (CHR ''-'')" by (simp add: int_space_def)
  have f: "\<not> length (filter is_decimal (c # cs)) \<le> int_max_str_digits"
    using filter_decimal[OF assms(1)] assms(2) by (simp add: s)
  show "py_int s = None"
    using strip_decimal[OF ne assms(1)] is_decimal_not_sign[OF c] f
    by (simp add: py_int_def Let_def s)
  show "py_int (CHR ''-'' # s) = None"
    using strip_decimal[OF ne assms(1)] ns f
    by (simp add: py_int_def Let_def s)
qed

lemma decimal_value_nonneg: "list_all is_decimal s \<Longrightarrow> 0 \<le> acc \<Longrightarrow> 0 \<le> foldl (\<lambda>a c. 10 * a + digit_of c) acc s"
  by (induction s arbitrary: acc) (auto simp: is_decimal_def digit_of_def)

lemma py_int_keywords:
  "py_int ''oldest'' = None" "py_int ''newest'' = None" "py_int ''first_unread'' = None"
  by (simp_all add: py_int_def int_space_def is_decimal_def)

lemma decimal_not_keyword:
  assumes "list_all is_decimal s"
  shows "s \<noteq> ''oldest''" "s \<noteq> ''newest''" "s \<noteq> ''first_unread''"
    "CHR ''-'' # s \<noteq> ''oldest''" "CHR ''-'' # s \<noteq> ''newest''"
    "CHR ''-'' # s \<noteq> ''first_unread''"
  using assms by (auto simp: is_decimal_def)

lemma nines_decimal: "list_all is_decimal (replicate k (CHR ''9''))"
  by (simp add: list_all_iff is_decimal_def)

text \<open>
  C9, as the claim states it, fails on a long number: a string of 4301 digits is a
  numeric string, and a number above the maximum, but \<^verbatim>\<open>int()\<close> refuses it for its
  length, so the anchor is not clamped to \<open>LARGER_THAN_MAX_MESSAGE_ID\<close> and the error
  "Invalid anchor" is raised.
\<close>

theorem long_anchor_counterexample:
  "parse_anchor_value (Some (replicate 4301 (CHR ''9''))) False
     = Inl (JsonableError ''Invalid anchor'')"
proof -
  have d: "list_all is_decimal (replicate 4301 (CHR ''9''))" by (rule nines_decimal)
  have "py_int (replicate 4301 (CHR ''9'')) = None"
    by (rule py_int_too_long(1)[OF d]) (simp add: int_max_str_digits_def)
  then show ?thesis
    using decimal_not_keyword(1-3)[OF d] by (simp add: parse_anchor_value_def)
qed

text \<open>
  C9, amended. \<open>parse_anchor_value\<close> maps "oldest" to 0, "newest" to
  \<open>LARGER_THAN_MAX_MESSAGE_ID\<close> and "first_unread" to the null anchor, as it does every
  anchor when \<open>use_first_unread_anchor\<close> is set. Every string that \<^verbatim>\<open>int()\<close> accepts
  is parsed and clamped into the range from 0 to \<open>LARGER_THAN_MAX_MESSAGE_ID\<close>; in
  particular a string of at most 4300 decimal digits gives its value cut at the maximum,
  the same digits after a minus sign give 0, "-5" gives 0 and "10000000000000001" gives
  the maximum. A missing anchor without \<open>use_first_unread_anchor\<close> is the error
  "Missing 'anchor' argument.", and every string that is neither a keyword nor accepted
  by \<^verbatim>\<open>int()\<close> is the error "Invalid anchor"; a string of more than 4300 decimal
  digits, with or without a minus sign, is such a string.
\<close>

theorem parse_anchor_value_cases:
  "parse_anchor_value (Some ''oldest'') False = Inr (Some 0)
   \<and> parse_anchor_value (Some ''newest'') False = Inr (Some LARGER_THAN_MAX_MESSAGE_ID)
   \<and> parse_anchor_value (Some ''first_unread'') False = Inr None
   \<and> parse_anchor_value anchor_val True = Inr None
   \<and> (py_int s = Some n \<longrightarrow>
        parse_anchor_value (Some s) False = Inr (Some (max 0 (min n LARGER_THAN_MAX_MESSAGE_ID))))
   \<and> (ds \<noteq> [] \<and> list_all is_decimal ds \<and> length ds \<le> 4300 \<longrightarrow>
        parse_anchor_value (Some ds) False
          = Inr (Some (min (decimal_value ds) LARGER_THAN_MAX_MESSAGE_ID))
        \<and> parse_anchor_value (Some (CHR ''-'' # ds)) False = Inr (Some 0))
   \<and> (list_all is_decimal ls \<and> 4300 < length ls \<longrightarrow>
        parse_anchor_value (Some ls) False = Inl (JsonableError ''Invalid anchor'')
        \<and> parse_anchor_value (Some (CHR ''-'' # ls)) False = Inl (JsonableError ''Invalid anchor''))
   \<and> parse_anchor_value (Some ''-5'') False = Inr (Some 0)
   \<and> parse_anchor_value (Some ''10000000000000001'') False = Inr (Some LARGER_THAN_MAX_MESSAGE_ID)
   \<and> parse_anchor_value None False = Inl (JsonableError ''Missing 'anchor' argument.'')
   \<and> (py_int t = None \<and> t \<noteq> ''oldest'' \<and> t \<noteq> ''newest'' \<and> t \<noteq> ''first_unread'' \<longrightarrow>
        parse_anchor_value (Some t) False = Inl (JsonableError ''Invalid anchor''))"
proof -
  have kw: "parse_anchor_value (Some ''oldest'') False = Inr (Some 0)"
    "parse_anchor_value (Some ''newest'') False = Inr (Some LARGER_THAN_MAX_MESSAGE_ID)"
    "parse_anchor_value (Some ''first_unread'') False = Inr None"
    "parse_anchor_value anchor_val True = Inr None"
    "parse_anchor_value None False = Inl (JsonableError ''Missing 'anchor' argument.'')"
    by (simp_all add: parse_anchor_value_def)
  have num: "parse_anchor_value (Some x) False = Inr (Some (max 0 (min m LARGER_THAN_MAX_MESSAGE_ID)))"
    if "py_int x = Some m" for x m
  proof -
    from that have "x \<noteq> ''oldest''" "x \<noteq> ''newest''" "x \<noteq> ''first_unread''"
      using py_int_keywords by auto
    with that show ?thesis
      by (auto simp: parse_anchor_value_def LARGER_THAN_MAX_MESSAGE_ID_def)
  qed
  have bad: "parse_anchor_value (Some x) False = Inl (JsonableError ''Invalid anchor'')"
    if "py_int x = None" "x \<noteq> ''oldest''" "x \<noteq> ''newest''" "x \<noteq> ''first_unread''" for x
    using that by (simp add: parse_anchor_value_def)
  have dec: "parse_anchor_value (Some ds) False
          = Inr (Some (min (decimal_value ds) LARGER_THAN_MAX_MESSAGE_ID))
        \<and> parse_anchor_value (Some (CHR ''-'' # ds)) False = Inr (Some 0)"
    if "ds \<noteq> []" "list_all is_decimal ds" "length ds \<le> 4300"
  proof -
    have nn: "0 \<le> decimal_value ds"
      using decimal_value_nonneg[OF that(2), of 0] by (simp add: decimal_value_def)
    from that(3) have l: "length ds \<le> int_max_str_digits" by (simp add: int_max_str_digits_def)
    show ?thesis
      using num[OF py_int_decimal(1)[OF that(1,2) l]] num[OF py_int_decimal(2)[OF that(1,2) l]] nn
      by (simp add: LARGER_THAN_MAX_MESSAGE_ID_def)
  qed
  have long: "parse_anchor_value (Some ls) False = Inl (JsonableError ''Invalid anchor'')
        \<and> parse_anchor_value (Some (CHR ''-'' # ls)) False = Inl (JsonableError ''Invalid anchor'')"
    if "list_all is_decimal ls" "4300 < length ls"
  proof -
    from that(2) have l: "int_max_str_digits < length ls" by (simp add: int_max_str_digits_def)
    show ?thesis
      using bad[OF py_int_too_long(1)[OF that(1) l] decimal_not_keyword(1-3)[OF that(1)]]
        bad[OF py_int_too_long(2)[OF that(1) l] decimal_not_keyword(4-6)[OF that(1)]]
      by simp
  qed
  have m5: "parse_anchor_value (Some ''-5'') False = Inr (Some 0)"
    by (simp add: parse_anchor_value_def py_int_def int_space_def is_decimal_def digit_of_def
        int_max_str_digits_def)
  have big: "parse_anchor_value (Some ''10000000000000001'') False = Inr (Some LARGER_THAN_MAX_MESSAGE_ID)"
    by (simp add: parse_anchor_value_def py_int_def int_space_def is_decimal_def digit_of_def
        LARGER_THAN_MAX_MESSAGE_ID_def int_max_str_digits_def)
  show ?thesis
    using kw num dec long m5 big bad by blast
qed

theorem parse_anchor_value_cases_witness:
  "py_int ''42'' = Some 42
   \<and> parse_anchor_value (Some ''42'') False = Inr (Some 42)
   \<and> list_all is_decimal ''77'' \<and> length ''77'' \<le> 4300
   \<and> parse_anchor_value (Some ''77'') False = Inr (Some 77)
   \<and> parse_anchor_value (Some ''-77'') False = Inr (Some 0)
   \<and> list_all is_decimal (replicate 4301 (CHR ''0'')) \<and> 4300 < length (replicate 4301 (CHR ''0''))
   \<and> parse_anchor_value (Some (replicate 4301 (CHR ''0''))) False
       = Inl (JsonableError ''Invalid anchor'')
   \<and> py_int ''4x2'' = None
   \<and> parse_anchor_value (Some ''4x2'') False = Inl (JsonableError ''Invalid anchor'')"
proof -
  have a: "py_int ''42'' = Some 42"
    by (simp add: py_int_def int_space_def is_decimal_def digit_of_def int_max_str_digits_def)
  have b: "''77'' \<noteq> [] \<and> list_all is_decimal ''77'' \<and> length ''77'' \<le> 4300"
    by (simp add: is_decimal_def)
  have c: "py_int ''4x2'' = None \<and> ''4x2'' \<noteq> ''oldest'' \<and> ''4x2'' \<noteq> ''newest''
      \<and> ''4x2'' \<noteq> ''first_unread''"
    by (simp add: py_int_def int_space_def is_decimal_def digit_of_def int_max_str_digits_def)
  have v: "decimal_value ''77'' = 77"
    by (simp add: decimal_value_def digit_of_def)
  have z: "list_all is_decimal (replicate 4301 (CHR ''0''))
      \<and> 4300 < length (replicate 4301 (CHR ''0''))"
    by (simp add: list_all_iff is_decimal_def)
  show ?thesis
    using a b c v z
      parse_anchor_value_cases[of undefined "''42''" 42 "''77''" "replicate 4301 (CHR ''0'')" "''4x2''"]
    by (simp add: LARGER_THAN_MAX_MESSAGE_ID_def)
qed

lemma py_slice_from_last: "0 < n \<Longrightarrow> py_slice_from (- n) xs = drop (length xs - nat n) xs"
  by (auto simp: py_slice_from_def nat_diff_distrib')

lemma sorted_partition:
  assumes "sorted (map fst vs)"
  shows "sorted (map fst (drop i (filter (\<lambda>r. fst r < (a::int)) vs)
           @ filter (\<lambda>r. fst r = a) vs @ take j (filter (\<lambda>r. fst r > a) vs)))"
proof -
  have b: "sorted (map fst (drop i (filter (\<lambda>r. fst r < a) vs)))"
    using assms by (simp add: drop_map[symmetric] sorted_wrt_drop sorted_filter del: drop_map)
  have c: "sorted (map fst (take j (filter (\<lambda>r. fst r > a) vs)))"
    using assms by (simp add: take_map[symmetric] sorted_wrt_take sorted_filter del: take_map)
  have d: "sorted (map fst (filter (\<lambda>r. fst r = a) vs))"
    using assms by (simp add: sorted_filter)
  show ?thesis using b c d
    by (auto simp: sorted_append dest!: in_set_dropD in_set_takeD)
qed

lemma sorted_partition_rows:
  assumes "sorted (map fst vs)"
  shows "sorted (map fst
      ((if p then filter (\<lambda>r. fst r < (a::int)) vs else drop i (filter (\<lambda>r. fst r < a) vs))
       @ filter (\<lambda>r. fst r = a) vs
       @ (if q then filter (\<lambda>r. fst r > a) vs else take j (filter (\<lambda>r. fst r > a) vs))))"
  using sorted_partition[OF assms, of 0 a "length vs"] sorted_partition[OF assms, of i a "length vs"]
    sorted_partition[OF assms, of 0 a j] sorted_partition[OF assms, of i a j]
  by (cases p; cases q) simp_all

text \<open>
  C5. Over a relation whose matching rows have the ids 10, 20, 30, 40 and 50, the
  fetch for anchor 30 (which is anchored to neither end), one row before, one row
  after, the anchor included and visibility floor 0, that is the window that
  \<open>limit_query_to_range\<close> plans, read in ascending order of id and passed to
  \<open>post_process_limited_query\<close>, gives exactly the rows 20, 30 and 40 in this order,
  with \<open>found_anchor\<close> true and \<open>found_oldest\<close> and \<open>found_newest\<close> false.
\<close>

theorem pagination_exactness:
  "fetch_window (message_table [(10, a), (20, b), (30, c), (40, d), (50, e)])
     \<lparr>selected_columns = cols, from_obj = tables, whereclause = [],
        order_by_clause = None, limit_clause = None\<rparr>
     (Column ''message_id'') 30 True 1 1 0
   = \<lparr>rows = [(20, b), (30, c), (40, d)], found_anchor = True, found_newest = False,
      found_oldest = False, history_limited = False\<rparr>"
  by (simp add: fetch_window_def limit_query_to_range_def Let_def query_where_def order_by_def
      limit_def execute_select_def message_table_def post_process_limited_query_def
      py_slice_from_def py_slice_to_def is_message_id_column_def
      LARGER_THAN_MAX_MESSAGE_ID_def)

text \<open>
  C6, as the claim states it, fails where a count is zero: with \<open>num_before = 0\<close> and
  \<open>num_after = 0\<close> the rows below and above the anchor are returned as they were
  fetched, not dropped.
\<close>

theorem post_process_zero_counts_counterexample:
  "rows (post_process_limited_query [(10, ()), (20, ()), (30, ())] 0 0 20 False False 0)
     = [(10, ()), (20, ()), (30, ())]
   \<and> rows (post_process_limited_query [(10, ()), (20, ()), (30, ())] 0 0 20 False False 0)
     \<noteq> [] @ [(20, ())] @ []"
  by (simp add: post_process_limited_query_def Let_def)

text \<open>
  C6, amended. For \<open>num_before \<ge> 0\<close> and \<open>num_after \<ge> 0\<close> and a fetch that is not
  anchored to the right, \<open>post_process_limited_query\<close> returns the rows below the
  anchor, then the rows at the anchor, then the rows above it, taken from the rows at
  or above the visibility floor: for a positive \<open>num_before\<close> only the last
  \<open>num_before\<close> rows below the anchor and for a positive \<open>num_after\<close> only the first
  \<open>num_after\<close> rows above it; for a count of zero that side is kept as it was fetched.
  When the fetched rows are in ascending order of id, so is the result.
\<close>

theorem post_process_rows:
  assumes "0 \<le> num_before" "0 \<le> num_after"
  shows "(let visible_rows = (if first_visible_message_id > 0
                              then filter (\<lambda>r. fst r \<ge> first_visible_message_id) fetched
                              else fetched);
              before_rows = filter (\<lambda>r. fst r < anchor_id) visible_rows;
              anchor_rows = filter (\<lambda>r. fst r = anchor_id) visible_rows;
              after_rows = filter (\<lambda>r. fst r > anchor_id) visible_rows;
              res = rows (post_process_limited_query fetched num_before num_after anchor_id
                            anchored_to_left False first_visible_message_id)
          in res = (if num_before = 0 then before_rows
                    else drop (length before_rows - nat num_before) before_rows)
                   @ anchor_rows
                   @ (if num_after = 0 then after_rows else take (nat num_after) after_rows)
             \<and> (sorted (map fst fetched) \<longrightarrow> sorted (map fst res)))"
proof -
  define visible_rows where "visible_rows =
    (if first_visible_message_id > 0
     then filter (\<lambda>r. fst r \<ge> first_visible_message_id) fetched else fetched)"
  have s: "sorted (map fst fetched) \<Longrightarrow> sorted (map fst visible_rows)"
    by (simp add: sorted_filter visible_rows_def)
  have r: "rows (post_process_limited_query fetched num_before num_after anchor_id
                   anchored_to_left False first_visible_message_id)
    = (if num_before = 0 then filter (\<lambda>r. fst r < anchor_id) visible_rows
       else drop (length (filter (\<lambda>r. fst r < anchor_id) visible_rows) - nat num_before)
              (filter (\<lambda>r. fst r < anchor_id) visible_rows))
      @ filter (\<lambda>r. fst r = anchor_id) visible_rows
      @ (if num_after = 0 then filter (\<lambda>r. fst r > anchor_id) visible_rows
         else take (nat num_after) (filter (\<lambda>r. fst r > anchor_id) visible_rows))"
    using assms
    by (simp add: post_process_limited_query_def Let_def py_slice_from_last py_slice_to_def
        visible_rows_def)
  show ?thesis
    unfolding Let_def visible_rows_def[symmetric] r
    using sorted_partition_rows[OF s] by simp
qed

theorem post_process_rows_witness:
  "(0::int) \<le> 1 \<and> sorted (map fst [(10::int, ()), (20, ()), (30, ()), (40, ()), (50, ())])
   \<and> rows (post_process_limited_query [(10, ()), (20, ()), (30, ()), (40, ()), (50, ())]
             1 1 30 False False 0) = [(20, ()), (30, ()), (40, ())]
   \<and> sorted (map fst (rows (post_process_limited_query
        [(10, ()), (20, ()), (30, ()), (40, ()), (50, ())] 1 1 30 False False 0)))"
  using post_process_rows[of 1 1 0 "[(10, ()), (20, ()), (30, ()), (40, ()), (50, ())]" 30 False]
  by (simp add: Let_def)

text \<open>
  C7, as the claim states it, fails for a fetch anchored to the right: a row whose id is
  the anchor survives the floor, and \<open>found_anchor\<close> is false.
\<close>

theorem found_anchor_right_counterexample:
  "\<not> found_anchor (post_process_limited_query [(10000000000000000, ())]
        5 0 10000000000000000 False True 0)
   \<and> length (filter (\<lambda>r. fst r = 10000000000000000) [(10000000000000000 :: int, ())]) = 1"
  by (simp add: post_process_limited_query_def Let_def)

text \<open>
  C7, amended. For every input of \<open>post_process_limited_query\<close>: \<open>found_anchor\<close> is
  true iff the fetch is not anchored to the right and exactly one row at or above the
  visibility floor has the id of the anchor; \<open>found_oldest\<close> is true iff the fetch is
  anchored to the left or the rows classified as before the anchor (all visible rows
  when anchored to the right) are fewer than \<open>num_before\<close>; \<open>found_newest\<close> is true
  iff the fetch is anchored to the right or the visible rows above the anchor are fewer
  than \<open>num_after\<close>.
\<close>

theorem post_process_metadata:
  "(let res = post_process_limited_query fetched num_before num_after anchor_id
                anchored_to_left anchored_to_right first_visible_message_id;
        visible_rows = (if first_visible_message_id > 0
                        then filter (\<lambda>r. fst r \<ge> first_visible_message_id) fetched
                        else fetched);
        before_rows = (if anchored_to_right then visible_rows
                       else filter (\<lambda>r. fst r < anchor_id) visible_rows);
        after_rows = filter (\<lambda>r. fst r > anchor_id) visible_rows
    in found_anchor res
         = ((\<not> anchored_to_right) \<and> length (filter (\<lambda>r. fst r = anchor_id) visible_rows) = 1)
     \<and> found_oldest res = (anchored_to_left \<or> int (length before_rows) < num_before)
     \<and> found_newest res = (anchored_to_right \<or> int (length after_rows) < num_after))"
  by (auto simp add: post_process_limited_query_def Let_def py_slice_from_def py_slice_to_def)

section \<open>Properties of a fetch anchored to the right\<close>

lemma larger_pos: "LARGER_THAN_MAX_MESSAGE_ID \<le> a \<Longrightarrow> a \<noteq> 0"
  by (simp add: LARGER_THAN_MAX_MESSAGE_ID_def)

lemma fetch_window_right:
  assumes "LARGER_THAN_MAX_MESSAGE_ID \<le> a"
  shows "fetch_window db query col a include_anchor num_before num_after fvm
     = post_process_limited_query
         (execute db (OrderedSubquery
            (limit_query_to_range query num_before 0 a include_anchor False True col fvm)
            (Column ''message_id'') Asc))
         num_before 0 a False True fvm"
  using assms larger_pos[OF assms] by (simp add: fetch_window_def Let_def)

lemma post_process_right:
  "post_process_limited_query fetched num_before num_after a atl True fvm
    = (let visible_rows = (if fvm > 0 then filter (\<lambda>r. fst r \<ge> fvm) fetched else fetched);
           before_rows = (if num_before \<noteq> 0 then py_slice_from (- num_before) visible_rows
                          else visible_rows)
       in \<lparr>rows = before_rows, found_anchor = False, found_newest = True,
           found_oldest = (atl \<or> int (length before_rows) < num_before),
           history_limited = (length visible_rows \<noteq> length fetched
                              \<and> (atl \<or> int (length before_rows) < num_before))\<rparr>)"
  by (simp add: post_process_limited_query_def Let_def)

text \<open>
  C8. For an anchor at or above \<open>LARGER_THAN_MAX_MESSAGE_ID\<close> the fetch runs with
  \<open>num_after\<close> forced to 0: the window, and the whole result of \<open>fetch_messages\<close>, are
  the same as for \<open>num_after = 0\<close>. Every fetched row at or above the visibility floor
  is treated as a row before the anchor: the page is these rows (their last
  \<open>num_before\<close> when \<open>num_before\<close> is not zero), no row counts as the anchor
  (\<open>found_anchor\<close> is false), and \<open>found_newest\<close> is true.
\<close>

theorem right_anchored_fetch:
  assumes "LARGER_THAN_MAX_MESSAGE_ID \<le> a"
  shows "fetch_window db query col a include_anchor num_before num_after fvm
           = fetch_window db query col a include_anchor num_before 0 fvm
   \<and> (let fetched = execute db (OrderedSubquery
            (limit_query_to_range query num_before 0 a include_anchor False True col fvm)
            (Column ''message_id'') Asc);
          visible_rows = (if fvm > 0 then filter (\<lambda>r. fst r \<ge> fvm) fetched else fetched);
          res = fetch_window db query col a include_anchor num_before num_after fvm
      in rows res = (if num_before \<noteq> 0 then py_slice_from (- num_before) visible_rows
                     else visible_rows)
         \<and> found_newest res \<and> \<not> found_anchor res)
   \<and> (fetch_messages env db narrow user realm' web anchor_arg include_anchor
          num_before num_after None = Inr res'
        \<and> anchor res' = Some a
       \<longrightarrow> found_newest res' \<and> \<not> found_anchor res'
         \<and> fetch_messages env db narrow user realm' web anchor_arg include_anchor
              num_before 0 None = Inr res')"
proof -
  have w: "fetch_window db query col a include_anchor num_before n fvm
     = post_process_limited_query
         (execute db (OrderedSubquery
            (limit_query_to_range query num_before 0 a include_anchor False True col fvm)
            (Column ''message_id'') Asc))
         num_before 0 a False True fvm" for n
    by (rule fetch_window_right[OF assms])
  have 1: "fetch_window db query col a include_anchor num_before num_after fvm
           = fetch_window db query col a include_anchor num_before 0 fvm"
    by (simp add: w)
  have 2: "(let fetched = execute db (OrderedSubquery
            (limit_query_to_range query num_before 0 a include_anchor False True col fvm)
            (Column ''message_id'') Asc);
          visible_rows = (if fvm > 0 then filter (\<lambda>r. fst r \<ge> fvm) fetched else fetched);
          res = fetch_window db query col a include_anchor num_before num_after fvm
      in rows res = (if num_before \<noteq> 0 then py_slice_from (- num_before) visible_rows
                     else visible_rows)
         \<and> found_newest res \<and> \<not> found_anchor res)"
    by (simp add: w post_process_right Let_def)
  have 3: "found_newest res' \<and> \<not> found_anchor res'
         \<and> fetch_messages env db narrow user realm' web anchor_arg include_anchor
              num_before 0 None = Inr res'"
    if f: "fetch_messages env db narrow user realm' web anchor_arg include_anchor
             num_before num_after None = Inr res'"
      and a: "anchor res' = Some a"
  proof -
    from f obtain ih q0 c q s d a' where
      p1: "ok_to_include_history env narrow user web = Inr ih"
      and p2: "get_base_query_for_search env (realm_id realm') user (\<not> ih) = Inr (q0, c)"
      and p3: "add_narrow_conditions env user c
                 (if \<not> ih then add_columns q0 [Column ''flags''] else q0) narrow web realm'
               = Inr (q, s, d)"
      and p4: "(case anchor_arg of
                  None \<Rightarrow> find_first_unread_anchor env db user narrow
                | Some a \<Rightarrow> Inr a) = Inr a'"
      and p5: "res' = (let query_info = fetch_window db q c a' include_anchor num_before num_after
                                          (get_first_visible_message_id env realm')
                       in \<lparr>rows = rows query_info,
                           found_anchor = found_anchor query_info,
                           found_newest = found_newest query_info,
                           found_oldest = found_oldest query_info,
                           history_limited = history_limited query_info,
                           anchor = Some a',
                           include_history = ih,
                           is_search = s\<rparr>)"
      by (auto simp: fetch_messages_def Let_def split: sum.splits prod.splits)
    from a p5 have e: "a' = a" by (simp add: Let_def)
    have z: "fetch_messages env db narrow user realm' web anchor_arg include_anchor
               num_before 0 None = Inr res'"
      using p1 p2 p3 p4
      by (simp add: fetch_messages_def Let_def p5 e fetch_window_right[OF assms])
    show ?thesis
      using z by (simp add: p5 e Let_def fetch_window_right[OF assms] post_process_right)
  qed
  show ?thesis using 1 2 3 by blast
qed

lemma add_narrow_conditions_None:
  "add_narrow_conditions env u c q None w r = Inr (q, False, False)"
  by (simp add: add_narrow_conditions_def)

lemma example_fetch_right:
  "fetch_messages example_collaborators
      (message_table [(10, ()), (20, ()), (30, ()), (40, ()), (50, ())])
      None (Some (example_user 7)) example_realm False (Some LARGER_THAN_MAX_MESSAGE_ID)
      True 2 3 None
   = Inr \<lparr>rows = [(40, ()), (50, ())], found_anchor = False, found_newest = True,
          found_oldest = False, history_limited = False,
          anchor = Some LARGER_THAN_MAX_MESSAGE_ID, include_history = False,
          is_search = False\<rparr>"
proof -
  define exq where "exq =
    \<lparr>selected_columns = [Column ''message_id'', Column ''flags''],
     from_obj =
       Join
         (Join (Table ''zerver_usermessage'') ''zerver_message''
            (Eq (LiteralColumn ''zerver_usermessage.message_id'')
                (LiteralColumn ''zerver_message.id'')))
         ''zerver_recipient''
         (Eq (LiteralColumn ''zerver_message.recipient_id'')
             (LiteralColumn ''zerver_recipient.id'')),
     whereclause =
       [Eq (Column ''user_profile_id'') (Literal (PyInt 7)),
        SqlOr
          [Ne (LiteralColumn ''zerver_recipient.type'') (NamedConstant ''Recipient.STREAM''),
           Exists ''zerver_stream''
             [Eq (LiteralColumn ''zerver_stream.recipient_id'')
                 (LiteralColumn ''zerver_recipient.id''),
              SqlOr
                [SqlAnd
                   [SqlNot (IsTrue (LiteralColumn ''zerver_stream.invite_only'')),
                    SqlNot (IsTrue (LiteralColumn ''zerver_stream.is_in_zephyr_realm'')),
                    SqlTrue],
                 In_list (LiteralColumn ''zerver_stream.can_subscribe_group_id'') [],
                 In_list (LiteralColumn ''zerver_stream.can_add_subscribers_group_id'') []]],
           Exists ''zerver_subscription''
             [Eq (LiteralColumn ''zerver_subscription.user_profile_id'') (Literal (PyInt 7)),
              Eq (LiteralColumn ''zerver_subscription.recipient_id'')
                 (LiteralColumn ''zerver_recipient.id''),
              IsTrue (LiteralColumn ''zerver_subscription.active'')]]],
     order_by_clause = None,
     limit_clause = None\<rparr>"
  have s1: "ok_to_include_history example_collaborators None (Some (example_user 7)) False
              = Inr False"
    by (simp add: ok_to_include_history_def)
  have s2: "get_base_query_for_search example_collaborators (realm_id example_realm)
              (Some (example_user 7)) True
            = Inr (exq\<lparr>selected_columns := [Column ''message_id'']\<rparr>, Column ''message_id'')"
    by (simp add: get_base_query_for_search_def example_defs exq_def)
  have s3: "add_columns (exq\<lparr>selected_columns := [Column ''message_id'']\<rparr>) [Column ''flags'']
              = exq"
    by (simp add: add_columns_def exq_def)
  have s4: "list_all (holds (message_table rs) r) (whereclause exq)" for rs and r :: "int \<times> unit"
    by (simp add: exq_def message_table_def is_message_id_column_def)
  have s5: "fetch_window (message_table [(10, ()), (20, ()), (30, ()), (40, ()), (50, ())])
       exq (Column ''message_id'') LARGER_THAN_MAX_MESSAGE_ID True 2 3 0
     = \<lparr>rows = [(40, ()), (50, ())], found_anchor = False, found_newest = True,
        found_oldest = False, history_limited = False\<rparr>"
    using s4[of "[(10, ()), (20, ()), (30, ()), (40, ()), (50, ())]"]
    apply (simp add: fetch_window_def limit_query_to_range_def Let_def query_where_def
        order_by_def limit_def execute_select_def post_process_limited_query_def
        py_slice_from_def py_slice_to_def LARGER_THAN_MAX_MESSAGE_ID_def)
    apply (simp add: exq_def message_table_def)
    done
  have s6: "get_first_visible_message_id example_collaborators example_realm = 0"
    by (simp add: example_collaborators_def)
  show ?thesis
    by (simp add: fetch_messages_def s1 s2 s3 s5 s6 add_narrow_conditions_None)
qed

theorem right_anchored_fetch_witness:
  "LARGER_THAN_MAX_MESSAGE_ID \<le> LARGER_THAN_MAX_MESSAGE_ID
   \<and> fetch_messages example_collaborators
        (message_table [(10, ()), (20, ()), (30, ()), (40, ()), (50, ())])
        None (Some (example_user 7)) example_realm False (Some LARGER_THAN_MAX_MESSAGE_ID)
        True 2 3 None
      = Inr \<lparr>rows = [(40, ()), (50, ())], found_anchor = False, found_newest = True,
             found_oldest = False, history_limited = False,
             anchor = Some LARGER_THAN_MAX_MESSAGE_ID, include_history = False,
             is_search = False\<rparr>
   \<and> fetch_messages example_collaborators
        (message_table [(10, ()), (20, ()), (30, ()), (40, ()), (50, ())])
        None (Some (example_user 7)) example_realm False (Some LARGER_THAN_MAX_MESSAGE_ID)
        True 2 0 None
      = Inr \<lparr>rows = [(40, ()), (50, ())], found_anchor = False, found_newest = True,
             found_oldest = False, history_limited = False,
             anchor = Some LARGER_THAN_MAX_MESSAGE_ID, include_history = False,
             is_search = False\<rparr>"
  using example_fetch_right
    right_anchored_fetch[where a=LARGER_THAN_MAX_MESSAGE_ID
      and env=example_collaborators
      and db="message_table [(10, ()), (20, ()), (30, ()), (40, ()), (50, ())]"
      and narrow=None and user="Some (example_user 7)" and realm'=example_realm and web=False
      and anchor_arg="Some LARGER_THAN_MAX_MESSAGE_ID" and include_anchor=True
      and num_before=2 and num_after=3
      and res'="\<lparr>rows = [(40, ()), (50, ())], found_anchor = False, found_newest = True,
             found_oldest = False, history_limited = False,
             anchor = Some LARGER_THAN_MAX_MESSAGE_ID, include_history = False,
             is_search = False\<rparr>"]
  by simp

section \<open>Properties of the history policy\<close>

lemma include_history_loop_true:
  "include_history_loop env user b ts = Inr True \<Longrightarrow>
     b \<or> list_ex (\<lambda>t. operator t \<in> set channel_operators \<and> \<not> negated t
              \<and> (case operand t of PyStr s \<Rightarrow> can_access_stream_history_by_name env user s
                  | PyInt i \<Rightarrow> can_access_stream_history_by_id env user i
                  | PyIntList xs \<Rightarrow> False)) ts
       \<or> (list_ex (\<lambda>t. operator t \<in> set channels_operators \<and> operand t = PyStr ''public''
              \<and> \<not> negated t) ts \<and> can_access_public_streams user)"
proof (induction ts arbitrary: b)
  case Nil
  then show ?case by simp
next
  case (Cons t ts)
  show ?case
  proof (cases "operator t \<in> set channel_operators \<and> \<not> negated t")
    case True
    then show ?thesis
      using Cons.prems Cons.IH
      by (cases "operand t") (auto split: if_splits)
  next
    case False
    then show ?thesis
      using Cons.prems Cons.IH
      by (auto split: if_splits)
  qed
qed

lemma disable_history_loop_eq:
  "disable_history_loop b ts
     = (b \<and> \<not> list_ex (\<lambda>t. operator t = ''is'' \<and> operand t \<noteq> PyStr ''resolved'') ts)"
  by (induction ts arbitrary: b) auto

lemma validated_channel_operand:
  "validate_terms t = Inr t \<Longrightarrow> operator t \<in> set channel_operators \<Longrightarrow> \<exists>s i. operand t = PyStr s \<or> operand t = PyInt i"
  by (cases "operand t")
     (auto simp: validate_terms_def operators_supporting_id_def check_string_or_int_def
        split: if_splits)

lemma include_history_loop_total:
  "list_all (\<lambda>t. validate_terms t = Inr t) ts \<Longrightarrow> \<exists>b'. include_history_loop env user b ts = Inr b'"
proof (induction ts arbitrary: b)
  case Nil
  then show ?case by simp
next
  case (Cons t ts)
  from Cons.prems have v: "validate_terms t = Inr t" and r: "list_all (\<lambda>t. validate_terms t = Inr t) ts"
    by auto
  show ?case
  proof (cases "operator t \<in> set channel_operators \<and> \<not> negated t")
    case True
    with validated_channel_operand[OF v] obtain s i where "operand t = PyStr s \<or> operand t = PyInt i"
      by blast
    then show ?thesis using True Cons.IH[OF r] by auto
  next
    case False
    then show ?thesis using Cons.IH[OF r] by auto
  qed
qed

text \<open>
  C4. For an authenticated request that is not web-public, \<open>ok_to_include_history\<close>
  returns true only if the narrow has a term with a channel operator that is not
  negated and whose channel grants the user access to its history, or has a
  \<^verbatim>\<open>channels:public\<close> term that is not negated while the user may access public
  channels. For a narrow with an \<^verbatim>\<open>is\<close> term whose operand is not \<^verbatim>\<open>resolved\<close> it
  never returns true, whatever the other terms are, and it returns false when the
  terms are validated terms (a channel operand is then a name or an id, which the
  history check accepts).
\<close>

theorem ok_to_include_history_conservative:
  "(ok_to_include_history env narrow (Some user) False = Inr True \<longrightarrow>
      (\<exists>terms. narrow = Some terms \<and>
        (list_ex (\<lambda>t. operator t \<in> set channel_operators \<and> \<not> negated t
              \<and> (case operand t of PyStr s \<Rightarrow> can_access_stream_history_by_name env user s
                  | PyInt i \<Rightarrow> can_access_stream_history_by_id env user i
                  | PyIntList xs \<Rightarrow> False)) terms
         \<or> (list_ex (\<lambda>t. operator t \<in> set channels_operators \<and> operand t = PyStr ''public''
              \<and> \<not> negated t) terms \<and> can_access_public_streams user))))
   \<and> (list_ex (\<lambda>t. operator t = ''is'' \<and> operand t \<noteq> PyStr ''resolved'') ts \<longrightarrow>
        ok_to_include_history env (Some ts) (Some user) False \<noteq> Inr True)
   \<and> (list_ex (\<lambda>t. operator t = ''is'' \<and> operand t \<noteq> PyStr ''resolved'') ts
        \<and> list_all (\<lambda>t. validate_terms t = Inr t) ts \<longrightarrow>
        ok_to_include_history env (Some ts) (Some user) False = Inr False)"
proof -
  have a: "\<exists>terms. narrow = Some terms \<and>
        (list_ex (\<lambda>t. operator t \<in> set channel_operators \<and> \<not> negated t
              \<and> (case operand t of PyStr s \<Rightarrow> can_access_stream_history_by_name env user s
                  | PyInt i \<Rightarrow> can_access_stream_history_by_id env user i
                  | PyIntList xs \<Rightarrow> False)) terms
         \<or> (list_ex (\<lambda>t. operator t \<in> set channels_operators \<and> operand t = PyStr ''public''
              \<and> \<not> negated t) terms \<and> can_access_public_streams user))"
    if h: "ok_to_include_history env narrow (Some user) False = Inr True"
  proof -
    from h obtain terms b where n: "narrow = Some terms"
      and l: "include_history_loop env user False terms = Inr b"
      and d: "disable_history_loop b terms"
      by (auto simp: ok_to_include_history_def split: option.splits sum.splits)
    from d have "b" by (simp add: disable_history_loop_eq)
    with l include_history_loop_true[of env user False terms] n show ?thesis by simp
  qed
  have b: "ok_to_include_history env (Some ts) (Some user) False \<noteq> Inr True"
    if "list_ex (\<lambda>t. operator t = ''is'' \<and> operand t \<noteq> PyStr ''resolved'') ts"
    using that by (auto simp: ok_to_include_history_def disable_history_loop_eq split: sum.splits)
  have c: "ok_to_include_history env (Some ts) (Some user) False = Inr False"
    if "list_ex (\<lambda>t. operator t = ''is'' \<and> operand t \<noteq> PyStr ''resolved'') ts"
      "list_all (\<lambda>t. validate_terms t = Inr t) ts"
    using that include_history_loop_total[OF that(2), of env user False]
    by (auto simp: ok_to_include_history_def disable_history_loop_eq split: sum.splits)
  show ?thesis using a b c by blast
qed

theorem ok_to_include_history_conservative_witness:
  "ok_to_include_history example_collaborators
      (Some [\<lparr>operator = ''channel'', operand = PyStr ''general'', negated = False\<rparr>])
      (Some (example_user 7)) False = Inr True
   \<and> list_ex (\<lambda>t. operator t \<in> set channel_operators \<and> \<not> negated t
         \<and> (case operand t of
               PyStr s \<Rightarrow> can_access_stream_history_by_name example_collaborators (example_user 7) s
             | PyInt i \<Rightarrow> can_access_stream_history_by_id example_collaborators (example_user 7) i
             | PyIntList xs \<Rightarrow> False))
       [\<lparr>operator = ''channel'', operand = PyStr ''general'', negated = False\<rparr>]
   \<and> list_ex (\<lambda>t. operator t = ''is'' \<and> operand t \<noteq> PyStr ''resolved'')
       [\<lparr>operator = ''channel'', operand = PyStr ''general'', negated = False\<rparr>,
        \<lparr>operator = ''is'', operand = PyStr ''starred'', negated = False\<rparr>]
   \<and> list_all (\<lambda>t. validate_terms t = Inr t)
       [\<lparr>operator = ''channel'', operand = PyStr ''general'', negated = False\<rparr>,
        \<lparr>operator = ''is'', operand = PyStr ''starred'', negated = False\<rparr>]
   \<and> ok_to_include_history example_collaborators
      (Some [\<lparr>operator = ''channel'', operand = PyStr ''general'', negated = False\<rparr>,
             \<lparr>operator = ''is'', operand = PyStr ''starred'', negated = False\<rparr>])
      (Some (example_user 7)) False = Inr False"
proof -
  have t: "ok_to_include_history example_collaborators
      (Some [\<lparr>operator = ''channel'', operand = PyStr ''general'', negated = False\<rparr>])
      (Some (example_user 7)) False = Inr True"
    by (simp add: ok_to_include_history_def channel_operators_def example_collaborators_def)
  have v: "list_all (\<lambda>t. validate_terms t = Inr t)
       [\<lparr>operator = ''channel'', operand = PyStr ''general'', negated = False\<rparr>,
        \<lparr>operator = ''is'', operand = PyStr ''starred'', negated = False\<rparr>]"
    by (simp add: validate_terms_def operators_supporting_id_def operators_supporting_ids_def
        operators_non_empty_operand_def channel_operators_def check_string_def
        check_string_or_int_def)
  show ?thesis
    using t v ok_to_include_history_conservative[of example_collaborators
        "Some [\<lparr>operator = ''channel'', operand = PyStr ''general'', negated = False\<rparr>]"
        "example_user 7"
        "[\<lparr>operator = ''channel'', operand = PyStr ''general'', negated = False\<rparr>,
          \<lparr>operator = ''is'', operand = PyStr ''starred'', negated = False\<rparr>]"]
    by (simp add: channel_operators_def channels_operators_def example_collaborators_def)
qed

section \<open>Properties of the permalink rewrite\<close>









section \<open>Properties of the condition compiler\<close>

lemma extends_query_refl: "extends_query q q"
  by (simp add: extends_query_def)

lemma take_length_prefix: "take (length xs) ys = xs \<Longrightarrow> take (length xs) (ys @ zs) = xs"
  by (metis append_eq_conv_conj append_take_drop_id append.assoc)

lemma extends_query_where: "extends_query q' q \<Longrightarrow> extends_query (query_where q' c) q"
  by (simp add: extends_query_def query_where_def take_length_prefix del: take_append)

lemma extends_query_add_columns: "extends_query q' q \<Longrightarrow> extends_query (add_columns q' cols) q"
  by (simp add: extends_query_def add_columns_def take_length_prefix del: take_append)

lemma extends_query_trans:
  assumes "extends_query q2 q1" "extends_query q1 q0"
  shows "extends_query q2 q0"
proof -
  have t: "take (length xs) zs = xs" if "take (length ys) zs = ys" "take (length xs) ys = xs"
    for xs ys zs :: "'a list"
    using that by (metis append_eq_conv_conj append_take_drop_id append.assoc)
  show ?thesis using assms by (auto simp: extends_query_def intro: t)
qed

lemma extends_query_execute:
  assumes "extends_query q' q" "limit_clause q = None"
  shows "set (execute_select db q') \<subseteq> set (execute_select db q)"
proof -
  from assms(1) obtain cs where w: "whereclause q' = whereclause q @ cs"
    by (metis append_take_drop_id extends_query_def)
  from assms have l: "limit_clause q' = None" and f: "from_obj q' = from_obj q"
    by (simp_all add: extends_query_def)
  have "set (filter (\<lambda>r. list_all (holds db r) (whereclause q')) (from_rows db (from_obj q')))
      \<subseteq> set (filter (\<lambda>r. list_all (holds db r) (whereclause q)) (from_rows db (from_obj q)))"
    by (auto simp: w f)
  then show ?thesis
    using l assms(2)
    by (auto simp: execute_select_def Let_def split: option.splits prod.splits direction.splits)
qed

lemma check_Inr:
  "check_not_both_channel_and_dm_narrow b mn d c = Inr b' \<longleftrightarrow>
     (mn = Sql_not \<and> b' = b)
     \<or> (mn = Keep_cond
        \<and> b' = b\<lparr>is_channel_narrow := is_channel_narrow b \<or> c, is_dm_narrow := is_dm_narrow b \<or> d\<rparr>
        \<and> \<not> ((is_channel_narrow b \<or> c) \<and> (is_dm_narrow b \<or> d)))"
  by (cases mn; cases d; cases c)
     (auto simp: check_not_both_channel_and_dm_narrow_def Let_def)

lemma check_Inl:
  "check_not_both_channel_and_dm_narrow b mn d c = Inl e \<longleftrightarrow>
     (mn = Keep_cond \<and> e = both_narrow_error
        \<and> (is_channel_narrow b \<or> c) \<and> (is_dm_narrow b \<or> d))"
  by (cases mn; cases d; cases c)
     (auto simp: check_not_both_channel_and_dm_narrow_def Let_def both_narrow_error_def)

lemmas ext_intros = extends_query_refl extends_query_where extends_query_add_columns

end
